theory Spec2Isabelle
  imports Main "HOL-Library.AList"
begin

section \<open>Values of the host language\<close>

text \<open>
  The hooks are TypeScript, but \<open>handleReview\<close> takes \<open>item: any\<close> and calls
  \<open>scheduleRevisionReminder\<close> with two arguments, and a row read from the database may carry
  \<open>null\<close>. The values that reach the reminder code are therefore modelled as they are at
  run time: \<open>undefined\<close>, \<open>null\<close>, a string or an (integral) number.
\<close>

datatype jsval = Undefined | Null | Str string | Num int

text \<open>JavaScript truthiness, as used by \<open>item.next_review && ...\<close>.\<close>

fun truthy :: "jsval \<Rightarrow> bool" where
  "truthy Undefined = False"
| "truthy Null = False"
| "truthy (Str s) = (s \<noteq> [])"
| "truthy (Num n) = (n \<noteq> 0)"

text \<open>
  \<open>new Date(v).getTime()\<close>: milliseconds since the epoch, \<open>None\<close> standing for \<open>NaN\<close>
  (an invalid date). Parsing of a date string is the host's; it is the parameter \<open>parse\<close>.
  \<open>new Date(undefined)\<close> is invalid, \<open>new Date(null)\<close> is the epoch, and a number is
  taken as the time value when it lies in the range of dates.
\<close>

fun dateTime :: "(string \<Rightarrow> int option) \<Rightarrow> jsval \<Rightarrow> int option" where
  "dateTime parse Undefined = None"
| "dateTime parse Null = Some 0"
| "dateTime parse (Str s) = parse s"
| "dateTime parse (Num n) = (if \<bar>n\<bar> \<le> 8640000000000000 then Some n else None)"

text \<open>\<open>x <= c\<close> on numbers where \<open>x\<close> may be \<open>NaN\<close>: every comparison with \<open>NaN\<close> is false.\<close>

fun num_le :: "int option \<Rightarrow> int \<Rightarrow> bool" where
  "num_le None c = False"
| "num_le (Some x) c = (x \<le> c)"

section \<open>Data model\<close>

text \<open>\<open>NotificationPermission\<close>: \<open>'default' | 'granted' | 'denied'\<close>.\<close>

datatype permission = Default | Granted | Denied

text \<open>The fields of a revision item that the reminder code reads.\<close>

record item =
  item_id :: string
  title :: string
  next_review :: jsval
  review_count :: "int option"

text \<open>
  A notification's title is one of two fixed texts (\<open>JEE Revision Reminder\<close>,
  \<open>JEE Revision Overdue\<close>), its body one of three templates around the item's title:
  \<open>OVERDUE: Time to review "..."\<close>, \<open>Time to review: "..."\<close> and
  \<open>OVERDUE: "..." needs review!\<close>.
\<close>

datatype heading = ReminderHeading | OverdueHeading

datatype body = OverdueReviewBody jsval | TimeToReviewBody jsval | NeedsReviewBody string

record notification =
  n_title :: heading
  n_body :: body
  n_tag :: string
  n_onclick :: bool
  n_closed :: bool

text \<open>
  The host's timers. A handle is the number \<open>setTimeout\<close> or \<open>setInterval\<close> returns; the
  host draws both from one pool and never returns a falsy one, so \<open>if (existingTimeout)\<close>
  is the test that the key is present. A pending timeout holds its delay and its callback,
  a pending interval its period and the closure of \<open>checkOverdueItems(items)\<close>. Each closure
  carries the \<open>permission\<close> of the render that created it.
\<close>

type_synonym handle = nat

datatype callback =
  Remind permission string heading body bool
| AutoClose nat

datatype timer =
  Timeout int callback
| Interval int permission "item list"

text \<open>
  The state of one \<open>useNotifications\<close> instance together with the host it runs on:
  whether \<open>'Notification' in window\<close>, the host's next timer handle and pending timers, the
  notifications surfaced so far, and the two refs of the hook.
\<close>

record state =
  hasNotification :: bool
  nextHandle :: handle
  timers :: "handle \<rightharpoonup> timer"
  shown :: "notification list"
  checkIntervalRef :: "handle option"
  notificationTimeoutsRef :: "(string \<times> handle) list"

definition init :: "bool \<Rightarrow> state" where
  "init hn = \<lparr>hasNotification = hn, nextHandle = 1, timers = Map.empty, shown = [],
     checkIntervalRef = None, notificationTimeoutsRef = []\<rparr>"

section \<open>Host timers\<close>

definition setTimeout :: "callback \<Rightarrow> int \<Rightarrow> state \<Rightarrow> handle \<times> state" where
  "setTimeout cb delay st =
     (nextHandle st,
      st\<lparr>nextHandle := Suc (nextHandle st),
         timers := (timers st)(nextHandle st \<mapsto> Timeout delay cb)\<rparr>)"

definition setInterval :: "permission \<Rightarrow> item list \<Rightarrow> int \<Rightarrow> state \<Rightarrow> handle \<times> state" where
  "setInterval perm items period st =
     (nextHandle st,
      st\<lparr>nextHandle := Suc (nextHandle st),
         timers := (timers st)(nextHandle st \<mapsto> Interval period perm items)\<rparr>)"

text \<open>\<open>clearTimeout\<close> and \<open>clearInterval\<close> both remove the handle from the host's pool.\<close>

definition clearTimeout :: "handle \<Rightarrow> state \<Rightarrow> state" where
  "clearTimeout h st = st\<lparr>timers := (timers st)(h := None)\<rparr>"

definition clearInterval :: "handle \<Rightarrow> state \<Rightarrow> state" where
  "clearInterval h st = st\<lparr>timers := (timers st)(h := None)\<rparr>"

section \<open>The hook \<open>useNotifications\<close>\<close>

text \<open>
  \<open>showNotification(title, body, options)\<close>: when permitted, creates the notification and
  arms its auto-close after 10 seconds; returns the notification (its index) or
  \<open>undefined\<close>.
\<close>

definition showNotification ::
  "permission \<Rightarrow> heading \<Rightarrow> body \<Rightarrow> string \<Rightarrow> state \<Rightarrow> nat option \<times> state" where
  "showNotification perm ttl bdy tag st =
     (if perm = Granted \<and> hasNotification st then
        (let n = length (shown st);
             st1 = st\<lparr>shown := shown st @
                     [\<lparr>n_title = ttl, n_body = bdy, n_tag = tag,
                       n_onclick = False, n_closed = False\<rparr>]\<rparr>
         in (Some n, snd (setTimeout (AutoClose n) 10000 st1)))
      else (None, st))"

text \<open>\<open>scheduleNotification(id, title, body, delay, onClick?)\<close>.\<close>

definition scheduleNotification ::
  "permission \<Rightarrow> string \<Rightarrow> heading \<Rightarrow> body \<Rightarrow> int \<Rightarrow> bool \<Rightarrow> state \<Rightarrow> state" where
  "scheduleNotification perm ident ttl bdy delay onClick st =
     (if perm \<noteq> Granted then st
      else
        (let st1 = (case map_of (notificationTimeoutsRef st) ident of
                      Some existingTimeout \<Rightarrow> clearTimeout existingTimeout st
                    | None \<Rightarrow> st);
             (timeout, st2) = setTimeout (Remind perm ident ttl bdy onClick) delay st1
         in st2\<lparr>notificationTimeoutsRef :=
                  AList.update ident timeout (notificationTimeoutsRef st2)\<rparr>))"

text \<open>
  What a timeout's callback does when the host runs it. The callback armed by
  \<open>scheduleNotification\<close> shows the notification, attaches \<open>onClick\<close> when both exist, and
  removes its id from the map; the auto-close callback closes its notification.
\<close>

fun runCallback :: "callback \<Rightarrow> state \<Rightarrow> state" where
  "runCallback (Remind perm ident ttl bdy onClick) st =
     (let (notification, st1) = showNotification perm ttl bdy ident st;
          st2 = (case notification of
                   Some n \<Rightarrow>
                     (if onClick
                      then st1\<lparr>shown := (shown st1)[n := (shown st1 ! n)\<lparr>n_onclick := True\<rparr>]\<rparr>
                      else st1)
                 | None \<Rightarrow> st1)
      in st2\<lparr>notificationTimeoutsRef := AList.delete ident (notificationTimeoutsRef st2)\<rparr>)"
| "runCallback (AutoClose n) st =
     (if n < length (shown st)
      then st\<lparr>shown := (shown st)[n := (shown st ! n)\<lparr>n_closed := True\<rparr>]\<rparr>
      else st)"

text \<open>The host runs a pending timeout once and forgets it.\<close>

definition fireTimeout :: "handle \<Rightarrow> state \<Rightarrow> state" where
  "fireTimeout h st =
     (case timers st h of
        Some (Timeout delay cb) \<Rightarrow> runCallback cb (st\<lparr>timers := (timers st)(h := None)\<rparr>)
      | _ \<Rightarrow> st)"

text \<open>\<open>cancelNotification(id)\<close>.\<close>

definition cancelNotification :: "string \<Rightarrow> state \<Rightarrow> state" where
  "cancelNotification ident st =
     (case map_of (notificationTimeoutsRef st) ident of
        Some timeout \<Rightarrow>
          (clearTimeout timeout st)\<lparr>notificationTimeoutsRef :=
             AList.delete ident (notificationTimeoutsRef st)\<rparr>
      | None \<Rightarrow> st)"

text \<open>
  \<open>scheduleRevisionReminder(itemId, itemTitle, nextReviewTime)\<close>, called when the clock
  (\<open>Date.now()\<close>) reads \<open>now\<close>. With an invalid date \<open>delay\<close> is \<open>NaN\<close>, both
  comparisons are false and neither branch runs.
\<close>

definition scheduleRevisionReminder ::
  "(string \<Rightarrow> int option) \<Rightarrow> permission \<Rightarrow> int \<Rightarrow> string \<Rightarrow> jsval \<Rightarrow> jsval \<Rightarrow> state \<Rightarrow> state" where
  "scheduleRevisionReminder parse perm now itemId itemTitle nextReviewTime st =
     (let nextReview = dateTime parse nextReviewTime;
          delay = map_option (\<lambda>t. t - now) nextReview
      in if num_le delay 0 then
           snd (showNotification perm ReminderHeading (OverdueReviewBody itemTitle) itemId st)
         else if num_le delay (7 * 24 * 60 * 60 * 1000) then
           scheduleNotification perm itemId ReminderHeading (TimeToReviewBody itemTitle)
             (the delay) True st
         else st)"

text \<open>\<open>checkOverdueItems(items)\<close> at clock reading \<open>now\<close>: the filter and one notification per match.\<close>

definition overdue :: "(string \<Rightarrow> int option) \<Rightarrow> int \<Rightarrow> item \<Rightarrow> bool" where
  "overdue parse now it =
     (truthy (next_review it) \<and> num_le (dateTime parse (next_review it)) now)"

definition checkOverdueItems ::
  "(string \<Rightarrow> int option) \<Rightarrow> permission \<Rightarrow> int \<Rightarrow> item list \<Rightarrow> state \<Rightarrow> item list \<times> state" where
  "checkOverdueItems parse perm now items st =
     (let overdueItems = filter (overdue parse now) items
      in (overdueItems,
          fold (\<lambda>it s. snd (showNotification perm OverdueHeading (NeedsReviewBody (title it))
                               (item_id it) s))
            overdueItems st))"

text \<open>
  \<open>startPeriodicCheck(items)\<close>; the cleanup function it returns is \<open>stopChecking\<close>, which
  reads the ref when it is called.
\<close>

definition startPeriodicCheck ::
  "(string \<Rightarrow> int option) \<Rightarrow> permission \<Rightarrow> int \<Rightarrow> item list \<Rightarrow> state \<Rightarrow> state" where
  "startPeriodicCheck parse perm now items st =
     (let st1 = (case checkIntervalRef st of
                   Some h \<Rightarrow> clearInterval h st
                 | None \<Rightarrow> st);
          st2 = snd (checkOverdueItems parse perm now items st1);
          (h, st3) = setInterval perm items (5 * 60 * 1000) st2
      in st3\<lparr>checkIntervalRef := Some h\<rparr>)"

definition stopChecking :: "state \<Rightarrow> state" where
  "stopChecking st =
     (case checkIntervalRef st of
        Some h \<Rightarrow> (clearInterval h st)\<lparr>checkIntervalRef := None\<rparr>
      | None \<Rightarrow> st)"

text \<open>A tick of a pending interval, at clock reading \<open>now\<close>; the interval stays armed.\<close>

definition fireInterval :: "(string \<Rightarrow> int option) \<Rightarrow> int \<Rightarrow> handle \<Rightarrow> state \<Rightarrow> state" where
  "fireInterval parse now h st =
     (case timers st h of
        Some (Interval period perm items) \<Rightarrow> snd (checkOverdueItems parse perm now items st)
      | _ \<Rightarrow> st)"

text \<open>\<open>stopAllNotifications()\<close> and \<open>getScheduledCount()\<close>.\<close>

definition stopAllNotifications :: "state \<Rightarrow> state" where
  "stopAllNotifications st =
     (let st1 = (case checkIntervalRef st of
                   Some h \<Rightarrow> (clearInterval h st)\<lparr>checkIntervalRef := None\<rparr>
                 | None \<Rightarrow> st);
          st2 = fold (\<lambda>(k, timeout) s. clearTimeout timeout s) (notificationTimeoutsRef st1) st1
      in st2\<lparr>notificationTimeoutsRef := []\<rparr>)"

definition getScheduledCount :: "state \<Rightarrow> nat" where
  "getScheduledCount st = length (notificationTimeoutsRef st)"

section \<open>The interval table of \<open>handleReview\<close>\<close>

definition intervals :: "int list" where
  "intervals = [3600000, 86400000, 259200000, 604800000, 1209600000]"

text \<open>
  \<open>intervals[Math.min(item.review_count || 0, intervals.length - 1)]\<close>; an index below
  zero reads \<open>undefined\<close>.
\<close>

definition nextInterval :: "int option \<Rightarrow> int option" where
  "nextInterval rc =
     (let count = (case rc of None \<Rightarrow> 0 | Some c \<Rightarrow> (if c \<noteq> 0 then c else 0));
          i = min count (int (length intervals) - 1)
      in if 0 \<le> i then Some (intervals ! nat i) else None)"

section \<open>The callers in \<open>useRevisionItems\<close> and \<open>RevisionSystem\<close>\<close>

text \<open>
  \<open>markAsReviewed(id)\<close> of \<open>useRevisionItems\<close>. The clock reads \<open>now\<close> when the next
  review date is computed and \<open>now'\<close> when the reminder is scheduled, after the remote call.
  The remote procedure \<open>increment_review_count\<close> and \<open>Date.prototype.toISOString\<close> are not
  code of the repository: they are the parameters \<open>rpc\<close> and \<open>toISOString\<close>. A failed call
  is thrown, here the left injection.
\<close>

datatype error = RpcError

definition markAsReviewed ::
  "(string \<Rightarrow> int option) \<Rightarrow> (int \<Rightarrow> string) \<Rightarrow> (string \<Rightarrow> string \<Rightarrow> error + item) \<Rightarrow>
     permission \<Rightarrow> int \<Rightarrow> int \<Rightarrow> string \<Rightarrow> state \<Rightarrow> (error + item) \<times> state" where
  "markAsReviewed parse toISOString rpc perm now now' ident st =
     (let nextReview = toISOString (now + 24 * 60 * 60 * 1000)
      in case rpc ident nextReview of
           Inl e \<Rightarrow> (Inl e, st)
         | Inr data \<Rightarrow>
             (Inr data,
              if perm = Granted
              then scheduleRevisionReminder parse perm now' (item_id data) (Str (title data))
                     (next_review data) st
              else st))"

text \<open>
  \<open>handleReview(item)\<close> of \<open>RevisionSystem\<close>. The row \<open>markAsReviewed\<close> returns has no
  \<open>error\<close> field, so \<open>result.error\<close> is falsy; a thrown error is caught. The component then
  calls \<open>scheduleRevisionReminder(item.title, nextInterval)\<close>: the title is bound to
  \<open>itemId\<close>, the interval to \<open>itemTitle\<close>, and \<open>nextReviewTime\<close> is \<open>undefined\<close>.
  \<open>perm'\<close> is the permission of the component's own \<open>useNotifications\<close> instance and
  \<open>now''\<close> the clock at that call. That instance has refs of its own; the call is applied
  to the state at hand, and with an invalid date it returns whatever state it is given.
\<close>

definition handleReview ::
  "(string \<Rightarrow> int option) \<Rightarrow> (int \<Rightarrow> string) \<Rightarrow> (string \<Rightarrow> string \<Rightarrow> error + item) \<Rightarrow>
     permission \<Rightarrow> permission \<Rightarrow> int \<Rightarrow> int \<Rightarrow> int \<Rightarrow> item \<Rightarrow> state \<Rightarrow> state" where
  "handleReview parse toISOString rpc perm perm' now now' now'' it st =
     (case markAsReviewed parse toISOString rpc perm now now' (item_id it) st of
        (Inl e, st1) \<Rightarrow> st1
      | (Inr result, st1) \<Rightarrow>
          (let interval = nextInterval (review_count it)
           in if perm' = Granted
              then scheduleRevisionReminder parse perm' now'' (title it)
                     (case interval of Some n \<Rightarrow> Num n | None \<Rightarrow> Undefined) Undefined st1
              else st1))"

section \<open>Runs of the hook\<close>

text \<open>
  What can happen to a state: a call of one of the hook's functions, or the host running a
  pending timeout or a tick of a pending interval.
\<close>

datatype action =
  ShowNotification permission heading body string
| ScheduleNotification permission string heading body int bool
| CancelNotification string
| ScheduleRevisionReminder permission int string jsval jsval
| CheckOverdueItems permission int "item list"
| StartPeriodicCheck permission int "item list"
| StopChecking
| StopAllNotifications
| FireTimeout handle
| FireInterval int handle

fun exec :: "(string \<Rightarrow> int option) \<Rightarrow> action \<Rightarrow> state \<Rightarrow> state" where
  "exec parse (ShowNotification perm ttl bdy tag) st = snd (showNotification perm ttl bdy tag st)"
| "exec parse (ScheduleNotification perm ident ttl bdy delay onClick) st =
     scheduleNotification perm ident ttl bdy delay onClick st"
| "exec parse (CancelNotification ident) st = cancelNotification ident st"
| "exec parse (ScheduleRevisionReminder perm now itemId itemTitle nextReviewTime) st =
     scheduleRevisionReminder parse perm now itemId itemTitle nextReviewTime st"
| "exec parse (CheckOverdueItems perm now items) st = snd (checkOverdueItems parse perm now items st)"
| "exec parse (StartPeriodicCheck perm now items) st = startPeriodicCheck parse perm now items st"
| "exec parse StopChecking st = stopChecking st"
| "exec parse StopAllNotifications st = stopAllNotifications st"
| "exec parse (FireTimeout h) st = fireTimeout h st"
| "exec parse (FireInterval now h) st = fireInterval parse now h st"

definition run :: "(string \<Rightarrow> int option) \<Rightarrow> action list \<Rightarrow> state \<Rightarrow> state" where
  "run parse acts st = fold (exec parse) acts st"

fun isStart :: "action \<Rightarrow> bool" where
  "isStart (StartPeriodicCheck perm now items) = True"
| "isStart a = False"

text \<open>
  The pending reminder timeouts of an id, and the pending sweeper intervals, as the host
  holds them.
\<close>

definition pendingFor :: "state \<Rightarrow> string \<Rightarrow> handle set" where
  "pendingFor st ident =
     {h. \<exists>d p t b c. timers st h = Some (Timeout d (Remind p ident t b c))}"

definition sweepers :: "state \<Rightarrow> handle set" where
  "sweepers st = {h. \<exists>d p its. timers st h = Some (Interval d p its)}"

text \<open>
  The states the hook keeps itself in: handles in use lie below the next handle
  (\<open>fresh\<close>); the map has each id once and its entries are exactly the pending reminder
  timeouts (\<open>registry_ok\<close>); the interval ref is exactly the pending interval
  (\<open>sweeper_ok\<close>).
\<close>

definition fresh :: "state \<Rightarrow> bool" where
  "fresh st \<longleftrightarrow> (\<forall>h. timers st h \<noteq> None \<longrightarrow> h < nextHandle st)"

definition registry_ok :: "state \<Rightarrow> bool" where
  "registry_ok st \<longleftrightarrow>
     distinct (map fst (notificationTimeoutsRef st))
     \<and> (\<forall>ident. pendingFor st ident = set_option (map_of (notificationTimeoutsRef st) ident))"

definition sweeper_ok :: "state \<Rightarrow> bool" where
  "sweeper_ok st \<longleftrightarrow> sweepers st = set_option (checkIntervalRef st)"

definition consistent :: "state \<Rightarrow> bool" where
  "consistent st \<longleftrightarrow> fresh st \<and> registry_ok st \<and> sweeper_ok st"

text \<open>A handle the host has issued and holds no longer.\<close>

definition retired :: "state \<Rightarrow> handle \<Rightarrow> bool" where
  "retired st h \<longleftrightarrow> h < nextHandle st \<and> timers st h = None"

text \<open>
  A finite excerpt of the host's date parsing, for the closed examples: three ISO strings
  with their epoch milliseconds; every other string is not a date.
\<close>

definition parseSample :: "string \<Rightarrow> int option" where
  "parseSample = map_of
     [(''2025-01-01T00:00:00.000Z'', 1735689600000),
      (''2025-01-01T01:00:00.000Z'', 1735693200000),
      (''2025-01-02T00:00:00.000Z'', 1735776000000),
      (''2025-02-01T00:00:00.000Z'', 1738368000000)]"

section \<open>Host timers: what the primitives change\<close>

lemma fresh_nextHandle: "fresh st \<Longrightarrow> timers st (nextHandle st) = None"
  unfolding fresh_def by (metis less_irrefl)

lemma consistent_init: "consistent (init hn)"
  by (simp add: consistent_def fresh_def registry_ok_def sweeper_ok_def pendingFor_def
      sweepers_def init_def)

lemma pendingFor_cong:
  "timers st' = timers st \<Longrightarrow> pendingFor st' ident = pendingFor st ident"
  by (simp add: pendingFor_def)

lemma sweepers_cong: "timers st' = timers st \<Longrightarrow> sweepers st' = sweepers st"
  by (simp add: sweepers_def)

lemma fresh_cong:
  "timers st' = timers st \<Longrightarrow> nextHandle st' = nextHandle st \<Longrightarrow> fresh st' = fresh st"
  by (simp add: fresh_def)

lemma setTimeout_fields:
  "fst (setTimeout cb d st) = nextHandle st"
  "hasNotification (snd (setTimeout cb d st)) = hasNotification st"
  "checkIntervalRef (snd (setTimeout cb d st)) = checkIntervalRef st"
  "notificationTimeoutsRef (snd (setTimeout cb d st)) = notificationTimeoutsRef st"
  "shown (snd (setTimeout cb d st)) = shown st"
  "nextHandle (snd (setTimeout cb d st)) = Suc (nextHandle st)"
  "timers (snd (setTimeout cb d st)) = (timers st)(nextHandle st \<mapsto> Timeout d cb)"
  by (simp_all add: setTimeout_def)

lemma fresh_setTimeout: "fresh st \<Longrightarrow> fresh (snd (setTimeout cb d st))"
  by (simp add: fresh_def setTimeout_fields less_Suc_eq)

lemma pendingFor_setTimeout:
  "fresh st \<Longrightarrow> pendingFor (snd (setTimeout cb d st)) ident =
     (case cb of
        Remind p i t b c \<Rightarrow>
          if i = ident then insert (nextHandle st) (pendingFor st ident) else pendingFor st ident
      | AutoClose n \<Rightarrow> pendingFor st ident)"
  by (frule fresh_nextHandle)
    (auto simp add: pendingFor_def setTimeout_fields split: callback.splits)

lemma sweepers_setTimeout:
  "fresh st \<Longrightarrow> sweepers (snd (setTimeout cb d st)) = sweepers st"
  by (frule fresh_nextHandle) (auto simp add: sweepers_def setTimeout_fields)

lemma setInterval_fields:
  "fst (setInterval p its d st) = nextHandle st"
  "hasNotification (snd (setInterval p its d st)) = hasNotification st"
  "checkIntervalRef (snd (setInterval p its d st)) = checkIntervalRef st"
  "notificationTimeoutsRef (snd (setInterval p its d st)) = notificationTimeoutsRef st"
  "shown (snd (setInterval p its d st)) = shown st"
  "nextHandle (snd (setInterval p its d st)) = Suc (nextHandle st)"
  "timers (snd (setInterval p its d st)) = (timers st)(nextHandle st \<mapsto> Interval d p its)"
  by (simp_all add: setInterval_def)

lemma fresh_setInterval: "fresh st \<Longrightarrow> fresh (snd (setInterval p its d st))"
  by (simp add: fresh_def setInterval_fields less_Suc_eq)

lemma pendingFor_setInterval:
  "fresh st \<Longrightarrow> pendingFor (snd (setInterval p its d st)) ident = pendingFor st ident"
  by (frule fresh_nextHandle) (auto simp add: pendingFor_def setInterval_fields)

lemma sweepers_setInterval:
  "sweepers (snd (setInterval p its d st)) = insert (nextHandle st) (sweepers st)"
  by (auto simp add: sweepers_def setInterval_fields)

lemma clearTimeout_fields:
  "hasNotification (clearTimeout h st) = hasNotification st"
  "checkIntervalRef (clearTimeout h st) = checkIntervalRef st"
  "notificationTimeoutsRef (clearTimeout h st) = notificationTimeoutsRef st"
  "shown (clearTimeout h st) = shown st"
  "nextHandle (clearTimeout h st) = nextHandle st"
  "timers (clearTimeout h st) = (timers st)(h := None)"
  by (simp_all add: clearTimeout_def)

lemma clearInterval_eq: "clearInterval h st = clearTimeout h st"
  by (simp add: clearInterval_def clearTimeout_def)

lemma fresh_clearTimeout: "fresh st \<Longrightarrow> fresh (clearTimeout h st)"
  by (simp add: fresh_def clearTimeout_fields)

lemma pendingFor_clearTimeout:
  "pendingFor (clearTimeout h st) ident = pendingFor st ident - {h}"
  by (auto simp add: pendingFor_def clearTimeout_fields)

lemma sweepers_clearTimeout: "sweepers (clearTimeout h st) = sweepers st - {h}"
  by (auto simp add: sweepers_def clearTimeout_fields)

text \<open>A reminder timeout is no sweeper and a sweeper no reminder timeout.\<close>

lemma pendingFor_sweepers_disjoint: "h \<in> pendingFor st ident \<Longrightarrow> h \<notin> sweepers st"
  by (auto simp add: pendingFor_def sweepers_def)

lemma pendingFor_disjoint:
  "h \<in> pendingFor st ident \<Longrightarrow> ident' \<noteq> ident \<Longrightarrow> h \<notin> pendingFor st ident'"
  by (auto simp add: pendingFor_def)

section \<open>\<open>showNotification\<close> and the sweep\<close>

lemma showNotification_fields:
  "hasNotification (snd (showNotification p t b tag st)) = hasNotification st"
  "checkIntervalRef (snd (showNotification p t b tag st)) = checkIntervalRef st"
  "notificationTimeoutsRef (snd (showNotification p t b tag st)) = notificationTimeoutsRef st"
  "nextHandle (snd (showNotification p t b tag st)) =
     (if p = Granted \<and> hasNotification st then Suc (nextHandle st) else nextHandle st)"
  "timers (snd (showNotification p t b tag st)) =
     (if p = Granted \<and> hasNotification st
      then (timers st)(nextHandle st \<mapsto> Timeout 10000 (AutoClose (length (shown st))))
      else timers st)"
  "shown (snd (showNotification p t b tag st)) =
     (if p = Granted \<and> hasNotification st
      then shown st @ [\<lparr>n_title = t, n_body = b, n_tag = tag, n_onclick = False, n_closed = False\<rparr>]
      else shown st)"
  "fst (showNotification p t b tag st) =
     (if p = Granted \<and> hasNotification st then Some (length (shown st)) else None)"
  by (simp_all add: showNotification_def setTimeout_def Let_def)

lemma showNotification_ungranted:
  "\<not> (p = Granted \<and> hasNotification st) \<Longrightarrow> showNotification p t b tag st = (None, st)"
  by (auto simp add: showNotification_def)

lemma fresh_showNotification: "fresh st \<Longrightarrow> fresh (snd (showNotification p t b tag st))"
  by (simp add: fresh_def showNotification_fields less_Suc_eq)

lemma pendingFor_showNotification:
  "fresh st \<Longrightarrow> pendingFor (snd (showNotification p t b tag st)) ident = pendingFor st ident"
  by (frule fresh_nextHandle) (auto simp add: pendingFor_def showNotification_fields)

lemma sweepers_showNotification:
  "fresh st \<Longrightarrow> sweepers (snd (showNotification p t b tag st)) = sweepers st"
  by (frule fresh_nextHandle) (auto simp add: sweepers_def showNotification_fields)

lemma timers_showNotification_old:
  "h < nextHandle st \<Longrightarrow> timers (snd (showNotification p t b tag st)) h = timers st h"
  by (simp add: showNotification_fields)

lemma nextHandle_showNotification_mono:
  "nextHandle st \<le> nextHandle (snd (showNotification p t b tag st))"
  by (simp add: showNotification_fields)

text \<open>The loop of \<open>checkOverdueItems\<close> over the overdue items.\<close>

lemma sweep_fold_fields:
  "hasNotification (fold (\<lambda>it s. snd (showNotification p t (f it) (g it) s)) xs st)
     = hasNotification st"
  "checkIntervalRef (fold (\<lambda>it s. snd (showNotification p t (f it) (g it) s)) xs st)
     = checkIntervalRef st"
  "notificationTimeoutsRef (fold (\<lambda>it s. snd (showNotification p t (f it) (g it) s)) xs st)
     = notificationTimeoutsRef st"
  by (induction xs arbitrary: st) (simp_all add: showNotification_fields)

lemma sweep_fold_shown:
  "shown (fold (\<lambda>it s. snd (showNotification p t (f it) (g it) s)) xs st) =
     (if p = Granted \<and> hasNotification st
      then shown st @ map (\<lambda>it. \<lparr>n_title = t, n_body = f it, n_tag = g it,
                                  n_onclick = False, n_closed = False\<rparr>) xs
      else shown st)"
  by (induction xs arbitrary: st) (simp_all add: showNotification_fields)

lemma sweep_fold_ungranted:
  "\<not> (p = Granted \<and> hasNotification st) \<Longrightarrow>
     fold (\<lambda>it s. snd (showNotification p t (f it) (g it) s)) xs st = st"
  by (induction xs arbitrary: st) (simp_all add: showNotification_ungranted)

lemma sweep_fold_fresh:
  "fresh st \<Longrightarrow> fresh (fold (\<lambda>it s. snd (showNotification p t (f it) (g it) s)) xs st)"
  by (induction xs arbitrary: st) (simp_all add: fresh_showNotification)

lemma sweep_fold_pendingFor:
  "fresh st \<Longrightarrow>
     pendingFor (fold (\<lambda>it s. snd (showNotification p t (f it) (g it) s)) xs st) ident
       = pendingFor st ident"
  by (induction xs arbitrary: st)
    (simp_all add: fresh_showNotification pendingFor_showNotification)

lemma sweep_fold_sweepers:
  "fresh st \<Longrightarrow>
     sweepers (fold (\<lambda>it s. snd (showNotification p t (f it) (g it) s)) xs st) = sweepers st"
  by (induction xs arbitrary: st)
    (simp_all add: fresh_showNotification sweepers_showNotification)

lemma sweep_fold_nextHandle_mono:
  "nextHandle st \<le> nextHandle (fold (\<lambda>it s. snd (showNotification p t (f it) (g it) s)) xs st)"
proof (induction xs arbitrary: st)
  case Nil
  show ?case by simp
next
  case (Cons x xs)
  have "nextHandle st \<le> nextHandle (snd (showNotification p t (f x) (g x) st))"
    by (rule nextHandle_showNotification_mono)
  also have "\<dots> \<le> nextHandle (fold (\<lambda>it s. snd (showNotification p t (f it) (g it) s)) xs
                        (snd (showNotification p t (f x) (g x) st)))"
    by (rule Cons.IH)
  finally show ?case by simp
qed

lemma sweep_fold_timers_old:
  "h < nextHandle st \<Longrightarrow>
     timers (fold (\<lambda>it s. snd (showNotification p t (f it) (g it) s)) xs st) h = timers st h"
proof (induction xs arbitrary: st)
  case Nil
  show ?case by simp
next
  case (Cons x xs)
  let ?s = "snd (showNotification p t (f x) (g x) st)"
  have "h < nextHandle ?s"
    using Cons.prems nextHandle_showNotification_mono [of st p t "f x" "g x"] by simp
  then have "timers (fold (\<lambda>it s. snd (showNotification p t (f it) (g it) s)) xs ?s) h
               = timers ?s h"
    by (rule Cons.IH)
  then show ?case
    using Cons.prems by (simp add: timers_showNotification_old)
qed

lemma checkOverdueItems_result:
  "fst (checkOverdueItems parse p now items st) = filter (overdue parse now) items"
  by (simp add: checkOverdueItems_def Let_def)

lemma checkOverdueItems_fields:
  "hasNotification (snd (checkOverdueItems parse p now items st)) = hasNotification st"
  "checkIntervalRef (snd (checkOverdueItems parse p now items st)) = checkIntervalRef st"
  "notificationTimeoutsRef (snd (checkOverdueItems parse p now items st))
     = notificationTimeoutsRef st"
  by (simp_all add: checkOverdueItems_def Let_def sweep_fold_fields)

lemma checkOverdueItems_shown:
  "shown (snd (checkOverdueItems parse p now items st)) =
     (if p = Granted \<and> hasNotification st
      then shown st @ map (\<lambda>it. \<lparr>n_title = OverdueHeading, n_body = NeedsReviewBody (title it),
                                  n_tag = item_id it, n_onclick = False, n_closed = False\<rparr>)
                        (filter (overdue parse now) items)
      else shown st)"
  by (simp add: checkOverdueItems_def Let_def sweep_fold_shown)

lemma checkOverdueItems_ungranted:
  "\<not> (p = Granted \<and> hasNotification st) \<Longrightarrow>
     snd (checkOverdueItems parse p now items st) = st"
  by (simp add: checkOverdueItems_def Let_def sweep_fold_ungranted)

lemma fresh_checkOverdueItems:
  "fresh st \<Longrightarrow> fresh (snd (checkOverdueItems parse p now items st))"
  by (simp add: checkOverdueItems_def Let_def sweep_fold_fresh)

lemma pendingFor_checkOverdueItems:
  "fresh st \<Longrightarrow>
     pendingFor (snd (checkOverdueItems parse p now items st)) ident = pendingFor st ident"
  by (simp add: checkOverdueItems_def Let_def sweep_fold_pendingFor)

lemma sweepers_checkOverdueItems:
  "fresh st \<Longrightarrow> sweepers (snd (checkOverdueItems parse p now items st)) = sweepers st"
  by (simp add: checkOverdueItems_def Let_def sweep_fold_sweepers)

lemma nextHandle_checkOverdueItems_mono:
  "nextHandle st \<le> nextHandle (snd (checkOverdueItems parse p now items st))"
  by (simp add: checkOverdueItems_def Let_def sweep_fold_nextHandle_mono)

lemma timers_checkOverdueItems_old:
  "h < nextHandle st \<Longrightarrow>
     timers (snd (checkOverdueItems parse p now items st)) h = timers st h"
  by (simp add: checkOverdueItems_def Let_def sweep_fold_timers_old)

lemma consistent_showNotification:
  "consistent st \<Longrightarrow> consistent (snd (showNotification p t b tag st))"
  by (simp add: consistent_def registry_ok_def sweeper_ok_def fresh_showNotification
      pendingFor_showNotification sweepers_showNotification showNotification_fields(2,3))

lemma consistent_checkOverdueItems:
  "consistent st \<Longrightarrow> consistent (snd (checkOverdueItems parse p now items st))"
  by (simp add: consistent_def registry_ok_def sweeper_ok_def fresh_checkOverdueItems
      pendingFor_checkOverdueItems sweepers_checkOverdueItems checkOverdueItems_fields)

section \<open>The timer registry\<close>

lemma registry_ok_lookup:
  "registry_ok st \<Longrightarrow> map_of (notificationTimeoutsRef st) ident = Some h \<Longrightarrow>
     pendingFor st ident = {h}"
  by (simp add: registry_ok_def)

lemma registry_ok_absent:
  "registry_ok st \<Longrightarrow> map_of (notificationTimeoutsRef st) ident = None \<Longrightarrow>
     pendingFor st ident = {}"
  by (simp add: registry_ok_def)

lemma registry_ok_pending:
  "registry_ok st \<Longrightarrow> h \<in> pendingFor st ident \<Longrightarrow>
     map_of (notificationTimeoutsRef st) ident = Some h"
  by (cases "map_of (notificationTimeoutsRef st) ident") (auto simp add: registry_ok_def)

lemma scheduleNotification_ungranted:
  "p \<noteq> Granted \<Longrightarrow> scheduleNotification p ident t b d c st = st"
  by (simp add: scheduleNotification_def)

lemma scheduleNotification_fields:
  "hasNotification (scheduleNotification Granted ident t b d c st) = hasNotification st"
  "checkIntervalRef (scheduleNotification Granted ident t b d c st) = checkIntervalRef st"
  "shown (scheduleNotification Granted ident t b d c st) = shown st"
  "nextHandle (scheduleNotification Granted ident t b d c st) = Suc (nextHandle st)"
  "notificationTimeoutsRef (scheduleNotification Granted ident t b d c st)
     = AList.update ident (nextHandle st) (notificationTimeoutsRef st)"
  "timers (scheduleNotification Granted ident t b d c st) =
     (case map_of (notificationTimeoutsRef st) ident of
        Some h0 \<Rightarrow> (timers st)(h0 := None)
      | None \<Rightarrow> timers st)
     (nextHandle st \<mapsto> Timeout d (Remind Granted ident t b c))"
  by (simp_all add: scheduleNotification_def setTimeout_def clearTimeout_def Let_def
      split: option.splits)

lemma pendingFor_scheduleNotification:
  assumes "fresh st" and "registry_ok st"
  shows "pendingFor (scheduleNotification Granted ident t b d c st) ident' =
           (if ident' = ident then {nextHandle st} else pendingFor st ident')"
proof -
  have nh: "timers st (nextHandle st) = None"
    using assms(1) by (rule fresh_nextHandle)
  show ?thesis
  proof (cases "map_of (notificationTimeoutsRef st) ident")
    case None
    then have "pendingFor st ident = {}"
      using assms(2) by (simp add: registry_ok_absent)
    then show ?thesis
      using None nh
      by (auto simp add: pendingFor_def scheduleNotification_fields)
  next
    case (Some h0)
    then have one: "pendingFor st ident = {h0}"
      using assms(2) by (simp add: registry_ok_lookup)
    then have "h0 \<in> pendingFor st ident" by simp
    then have other: "ident' \<noteq> ident \<Longrightarrow> h0 \<notin> pendingFor st ident'"
      by (rule pendingFor_disjoint)
    show ?thesis
    proof (cases "ident' = ident")
      case True
      have "h \<in> pendingFor (scheduleNotification Granted ident t b d c st) ident
              \<longleftrightarrow> h = nextHandle st" for h
      proof (cases "h = nextHandle st")
        case True
        then show ?thesis
          by (simp add: pendingFor_def scheduleNotification_fields)
      next
        case False
        have "h \<in> pendingFor (scheduleNotification Granted ident t b d c st) ident
                \<longleftrightarrow> h \<noteq> h0 \<and> h \<in> pendingFor st ident"
          using False Some by (auto simp add: pendingFor_def scheduleNotification_fields)
        then show ?thesis using False one by simp
      qed
      then show ?thesis using True by auto
    next
      case False
      have "h \<in> pendingFor (scheduleNotification Granted ident t b d c st) ident'
              \<longleftrightarrow> h \<in> pendingFor st ident'" for h
      proof (cases "h = nextHandle st")
        case True
        then show ?thesis
          using False nh by (auto simp add: pendingFor_def scheduleNotification_fields)
      next
        case nnh: False
        have "h \<in> pendingFor (scheduleNotification Granted ident t b d c st) ident'
                \<longleftrightarrow> h \<noteq> h0 \<and> h \<in> pendingFor st ident'"
          using nnh Some by (auto simp add: pendingFor_def scheduleNotification_fields)
        then show ?thesis using other [OF False] by auto
      qed
      then show ?thesis using False by auto
    qed
  qed
qed

lemma sweepers_scheduleNotification:
  assumes "fresh st" and "registry_ok st"
  shows "sweepers (scheduleNotification Granted ident t b d c st) = sweepers st"
proof -
  have nh: "timers st (nextHandle st) = None"
    using assms(1) by (rule fresh_nextHandle)
  show ?thesis
  proof (cases "map_of (notificationTimeoutsRef st) ident")
    case None
    then show ?thesis
      using nh by (auto simp add: sweepers_def scheduleNotification_fields)
  next
    case (Some h0)
    then have "h0 \<in> pendingFor st ident"
      using assms(2) by (simp add: registry_ok_lookup)
    then have "h0 \<notin> sweepers st"
      by (rule pendingFor_sweepers_disjoint)
    then show ?thesis
      using nh Some by (auto simp add: sweepers_def scheduleNotification_fields)
  qed
qed

lemma fresh_scheduleNotification:
  "fresh st \<Longrightarrow> fresh (scheduleNotification p ident t b d c st)"
  by (cases "p = Granted")
    (auto simp add: fresh_def scheduleNotification_fields scheduleNotification_ungranted
      less_Suc_eq split: option.splits)

lemma consistent_scheduleNotification:
  assumes "consistent st"
  shows "consistent (scheduleNotification p ident t b d c st)"
proof (cases "p = Granted")
  case False
  then show ?thesis using assms by (simp add: scheduleNotification_ungranted)
next
  case True
  have f: "fresh st" and r: "registry_ok st" and s: "sweeper_ok st"
    using assms by (simp_all add: consistent_def)
  have "distinct (map fst (notificationTimeoutsRef st))"
    using r by (simp add: registry_ok_def)
  then have "distinct (map fst (AList.update ident (nextHandle st) (notificationTimeoutsRef st)))"
    by (rule AList.distinct_update)
  moreover have "pendingFor (scheduleNotification Granted ident t b d c st) ident' =
      set_option (map_of (AList.update ident (nextHandle st) (notificationTimeoutsRef st)) ident')"
    for ident'
    using r by (simp add: pendingFor_scheduleNotification [OF f r] AList.update_conv'
        registry_ok_def)
  ultimately have "registry_ok (scheduleNotification Granted ident t b d c st)"
    by (simp add: registry_ok_def scheduleNotification_fields)
  moreover have "sweeper_ok (scheduleNotification Granted ident t b d c st)"
    using s by (simp add: sweeper_ok_def sweepers_scheduleNotification [OF f r]
        scheduleNotification_fields)
  ultimately show ?thesis
    using True f by (simp add: consistent_def fresh_scheduleNotification)
qed

lemma cancelNotification_fields:
  "hasNotification (cancelNotification ident st) = hasNotification st"
  "checkIntervalRef (cancelNotification ident st) = checkIntervalRef st"
  "shown (cancelNotification ident st) = shown st"
  "nextHandle (cancelNotification ident st) = nextHandle st"
  "map_of (notificationTimeoutsRef (cancelNotification ident st))
     = (map_of (notificationTimeoutsRef st))(ident := None)"
  "timers (cancelNotification ident st) =
     (case map_of (notificationTimeoutsRef st) ident of
        Some h0 \<Rightarrow> (timers st)(h0 := None)
      | None \<Rightarrow> timers st)"
  by (auto simp add: cancelNotification_def clearTimeout_def AList.delete_conv'
      split: option.splits)

lemma distinct_cancelNotification:
  "distinct (map fst (notificationTimeoutsRef st)) \<Longrightarrow>
     distinct (map fst (notificationTimeoutsRef (cancelNotification ident st)))"
  by (simp add: cancelNotification_def AList.distinct_delete split: option.splits)

lemma pendingFor_cancelNotification:
  assumes "registry_ok st"
  shows "pendingFor (cancelNotification ident st) ident' =
           (if ident' = ident then {} else pendingFor st ident')"
proof (cases "map_of (notificationTimeoutsRef st) ident")
  case None
  then have "pendingFor st ident = {}"
    using assms by (simp add: registry_ok_absent)
  then show ?thesis
    using None by (auto simp add: pendingFor_def cancelNotification_fields)
next
  case (Some h0)
  then have one: "pendingFor st ident = {h0}"
    using assms by (simp add: registry_ok_lookup)
  then have "h0 \<in> pendingFor st ident" by simp
  then have other: "ident' \<noteq> ident \<Longrightarrow> h0 \<notin> pendingFor st ident'"
    by (rule pendingFor_disjoint)
  have "pendingFor (cancelNotification ident st) ident' = pendingFor st ident' - {h0}"
    using Some by (auto simp add: pendingFor_def cancelNotification_fields)
  then show ?thesis
    using one other by auto
qed

lemma sweepers_cancelNotification:
  assumes "registry_ok st"
  shows "sweepers (cancelNotification ident st) = sweepers st"
proof (cases "map_of (notificationTimeoutsRef st) ident")
  case None
  then show ?thesis by (simp add: sweepers_def cancelNotification_fields)
next
  case (Some h0)
  then have "h0 \<in> pendingFor st ident"
    using assms by (simp add: registry_ok_lookup)
  then have "h0 \<notin> sweepers st"
    by (rule pendingFor_sweepers_disjoint)
  moreover have "sweepers (cancelNotification ident st) = sweepers st - {h0}"
    using Some by (auto simp add: sweepers_def cancelNotification_fields)
  ultimately show ?thesis by simp
qed

lemma fresh_cancelNotification: "fresh st \<Longrightarrow> fresh (cancelNotification ident st)"
  by (auto simp add: fresh_def cancelNotification_fields split: option.splits)

lemma consistent_cancelNotification:
  assumes "consistent st"
  shows "consistent (cancelNotification ident st)"
proof -
  have f: "fresh st" and r: "registry_ok st" and s: "sweeper_ok st"
    using assms by (simp_all add: consistent_def)
  have "registry_ok (cancelNotification ident st)"
    using r distinct_cancelNotification [of st ident]
    by (simp add: registry_ok_def pendingFor_cancelNotification [OF r] cancelNotification_fields)
  moreover have "sweeper_ok (cancelNotification ident st)"
    using s by (simp add: sweeper_ok_def sweepers_cancelNotification [OF r]
        cancelNotification_fields)
  ultimately show ?thesis
    using f by (simp add: consistent_def fresh_cancelNotification)
qed

section \<open>Firing a timeout\<close>

lemma runCallback_Remind:
  "runCallback (Remind p ident t b c) st =
     (let st1 = snd (showNotification p t b ident st);
          st2 = (case fst (showNotification p t b ident st) of
                   Some n \<Rightarrow>
                     (if c then st1\<lparr>shown := (shown st1)[n := (shown st1 ! n)\<lparr>n_onclick := True\<rparr>]\<rparr>
                      else st1)
                 | None \<Rightarrow> st1)
      in st2\<lparr>notificationTimeoutsRef := AList.delete ident (notificationTimeoutsRef st2)\<rparr>)"
  by (simp add: Let_def split_beta)

lemma runCallback_Remind_fields:
  "hasNotification (runCallback (Remind p ident t b c) st) = hasNotification st"
  "checkIntervalRef (runCallback (Remind p ident t b c) st) = checkIntervalRef st"
  "nextHandle (runCallback (Remind p ident t b c) st)
     = nextHandle (snd (showNotification p t b ident st))"
  "timers (runCallback (Remind p ident t b c) st)
     = timers (snd (showNotification p t b ident st))"
  "notificationTimeoutsRef (runCallback (Remind p ident t b c) st)
     = AList.delete ident (notificationTimeoutsRef st)"
  unfolding runCallback_Remind Let_def
  by (simp_all add: showNotification_fields(1,2,3) split: option.splits)

lemma runCallback_AutoClose_fields:
  "hasNotification (runCallback (AutoClose n) st) = hasNotification st"
  "checkIntervalRef (runCallback (AutoClose n) st) = checkIntervalRef st"
  "nextHandle (runCallback (AutoClose n) st) = nextHandle st"
  "timers (runCallback (AutoClose n) st) = timers st"
  "notificationTimeoutsRef (runCallback (AutoClose n) st) = notificationTimeoutsRef st"
  by simp_all

lemma runCallback_fields:
  "hasNotification (runCallback cb st) = hasNotification st"
  "checkIntervalRef (runCallback cb st) = checkIntervalRef st"
  "nextHandle (runCallback cb st) =
     (case cb of
        Remind p ident t b c \<Rightarrow> nextHandle (snd (showNotification p t b ident st))
      | AutoClose n \<Rightarrow> nextHandle st)"
  "timers (runCallback cb st) =
     (case cb of
        Remind p ident t b c \<Rightarrow> timers (snd (showNotification p t b ident st))
      | AutoClose n \<Rightarrow> timers st)"
  "notificationTimeoutsRef (runCallback cb st) =
     (case cb of
        Remind p ident t b c \<Rightarrow> AList.delete ident (notificationTimeoutsRef st)
      | AutoClose n \<Rightarrow> notificationTimeoutsRef st)"
  by (cases cb; simp only: runCallback_Remind_fields runCallback_AutoClose_fields
      callback.case)+

declare runCallback.simps [simp del]

lemma fireTimeout_other:
  "\<forall>d cb. timers st h \<noteq> Some (Timeout d cb) \<Longrightarrow> fireTimeout h st = st"
  by (auto simp add: fireTimeout_def split: option.splits timer.splits)

lemma fireTimeout_Timeout:
  "timers st h = Some (Timeout d cb) \<Longrightarrow> fireTimeout h st = runCallback cb (clearTimeout h st)"
  by (simp add: fireTimeout_def clearTimeout_def)

lemma fresh_runCallback: "fresh st \<Longrightarrow> fresh (runCallback cb st)"
proof (cases cb)
  case (Remind p ident t b c)
  assume "fresh st"
  then have "fresh (snd (showNotification p t b ident st))"
    by (rule fresh_showNotification)
  then show ?thesis
    using Remind by (simp add: fresh_def runCallback_fields)
next
  case (AutoClose n)
  assume "fresh st"
  then show ?thesis
    using AutoClose by (simp add: fresh_def runCallback_fields)
qed

lemma pendingFor_runCallback:
  "fresh st \<Longrightarrow> pendingFor (runCallback cb st) ident' = pendingFor st ident'"
proof (cases cb)
  case (Remind p ident t b c)
  assume "fresh st"
  then have "pendingFor (snd (showNotification p t b ident st)) ident' = pendingFor st ident'"
    by (rule pendingFor_showNotification)
  moreover have "pendingFor (runCallback cb st) ident'
      = pendingFor (snd (showNotification p t b ident st)) ident'"
    using Remind by (intro pendingFor_cong) (simp add: runCallback_fields)
  ultimately show ?thesis by simp
next
  case (AutoClose n)
  then show ?thesis by (intro pendingFor_cong) (simp add: runCallback_fields)
qed

lemma sweepers_runCallback: "fresh st \<Longrightarrow> sweepers (runCallback cb st) = sweepers st"
proof (cases cb)
  case (Remind p ident t b c)
  assume "fresh st"
  then have "sweepers (snd (showNotification p t b ident st)) = sweepers st"
    by (rule sweepers_showNotification)
  moreover have "sweepers (runCallback cb st) = sweepers (snd (showNotification p t b ident st))"
    using Remind by (intro sweepers_cong) (simp add: runCallback_fields)
  ultimately show ?thesis by simp
next
  case (AutoClose n)
  then show ?thesis by (intro sweepers_cong) (simp add: runCallback_fields)
qed

lemma pendingFor_fireTimeout:
  assumes "fresh st" and "registry_ok st" and "timers st h = Some (Timeout d cb)"
  shows "pendingFor (fireTimeout h st) ident' =
           (case cb of
              Remind p ident t b c \<Rightarrow> if ident' = ident then {} else pendingFor st ident'
            | AutoClose n \<Rightarrow> pendingFor st ident')"
proof -
  have "fresh (clearTimeout h st)"
    using assms(1) by (rule fresh_clearTimeout)
  then have eq: "pendingFor (fireTimeout h st) ident' = pendingFor st ident' - {h}"
    by (simp add: fireTimeout_Timeout [OF assms(3)] pendingFor_runCallback
        pendingFor_clearTimeout)
  show ?thesis
  proof (cases cb)
    case (AutoClose n)
    then have "h \<notin> pendingFor st ident'"
      using assms(3) by (simp add: pendingFor_def)
    then show ?thesis using eq AutoClose by simp
  next
    case (Remind p ident t b c)
    then have mem: "h \<in> pendingFor st ident"
      using assms(3) by (simp add: pendingFor_def)
    then have "map_of (notificationTimeoutsRef st) ident = Some h"
      using assms(2) by (simp add: registry_ok_pending)
    then have "pendingFor st ident = {h}"
      using assms(2) by (simp add: registry_ok_lookup)
    moreover have "ident' \<noteq> ident \<Longrightarrow> h \<notin> pendingFor st ident'"
      using mem by (rule pendingFor_disjoint)
    ultimately show ?thesis using eq Remind by auto
  qed
qed

lemma registry_fireTimeout:
  assumes "timers st h = Some (Timeout d cb)"
  shows "notificationTimeoutsRef (fireTimeout h st) =
           (case cb of
              Remind p ident t b c \<Rightarrow> AList.delete ident (notificationTimeoutsRef st)
            | AutoClose n \<Rightarrow> notificationTimeoutsRef st)"
  by (simp add: fireTimeout_Timeout [OF assms] runCallback_fields clearTimeout_fields
      split: callback.splits)

lemma consistent_fireTimeout:
  assumes "consistent st"
  shows "consistent (fireTimeout h st)"
proof (cases "\<exists>d cb. timers st h = Some (Timeout d cb)")
  case False
  then show ?thesis using assms by (simp add: fireTimeout_other)
next
  case True
  then obtain d cb where tm: "timers st h = Some (Timeout d cb)" by blast
  have f: "fresh st" and r: "registry_ok st" and s: "sweeper_ok st"
    using assms by (simp_all add: consistent_def)
  have fc: "fresh (clearTimeout h st)"
    using f by (rule fresh_clearTimeout)
  have eq: "fireTimeout h st = runCallback cb (clearTimeout h st)"
    using tm by (rule fireTimeout_Timeout)
  have f': "fresh (fireTimeout h st)"
    using fc by (simp add: eq fresh_runCallback)
  have "h \<notin> sweepers st"
    using tm by (simp add: sweepers_def)
  then have "sweepers (fireTimeout h st) = sweepers st"
    using fc by (simp add: eq sweepers_runCallback sweepers_clearTimeout)
  then have s': "sweeper_ok (fireTimeout h st)"
    using s by (simp add: sweeper_ok_def eq runCallback_fields clearTimeout_fields)
  have dist: "distinct (map fst (notificationTimeoutsRef st))"
    using r by (simp add: registry_ok_def)
  have r': "registry_ok (fireTimeout h st)"
  proof (cases cb)
    case (AutoClose n)
    then show ?thesis
      using r pendingFor_fireTimeout [OF f r tm] registry_fireTimeout [OF tm]
      by (simp add: registry_ok_def)
  next
    case (Remind p ident t b c)
    then show ?thesis
      using r dist pendingFor_fireTimeout [OF f r tm] registry_fireTimeout [OF tm]
      by (simp add: registry_ok_def AList.distinct_delete AList.delete_conv')
  qed
  show ?thesis
    using f' r' s' by (simp add: consistent_def)
qed

section \<open>\<open>scheduleRevisionReminder\<close>\<close>

lemma scheduleRevisionReminder_cases:
  "scheduleRevisionReminder parse p now ident ttl v st =
     (case dateTime parse v of
        None \<Rightarrow> st
      | Some t \<Rightarrow>
          if t \<le> now then
            snd (showNotification p ReminderHeading (OverdueReviewBody ttl) ident st)
          else if t - now \<le> 604800000 then
            scheduleNotification p ident ReminderHeading (TimeToReviewBody ttl) (t - now) True st
          else st)"
  by (simp add: scheduleRevisionReminder_def Let_def split: option.splits)

lemma consistent_scheduleRevisionReminder:
  "consistent st \<Longrightarrow> consistent (scheduleRevisionReminder parse p now ident ttl v st)"
  by (simp add: scheduleRevisionReminder_cases consistent_showNotification
      consistent_scheduleNotification split: option.splits)

section \<open>The sweeper\<close>

lemma startPeriodicCheck_unfold:
  "startPeriodicCheck parse p now items st =
     (snd (setInterval p items 300000
        (snd (checkOverdueItems parse p now items
           (case checkIntervalRef st of Some h \<Rightarrow> clearTimeout h st | None \<Rightarrow> st)))))
     \<lparr>checkIntervalRef :=
        Some (nextHandle (snd (checkOverdueItems parse p now items
           (case checkIntervalRef st of Some h \<Rightarrow> clearTimeout h st | None \<Rightarrow> st))))\<rparr>"
  by (simp add: startPeriodicCheck_def Let_def clearInterval_eq setInterval_def
      split: option.splits)

lemma cleared_sweeper:
  assumes "fresh st" and "sweeper_ok st"
  shows "fresh (case checkIntervalRef st of Some h \<Rightarrow> clearTimeout h st | None \<Rightarrow> st)"
    and "sweepers (case checkIntervalRef st of Some h \<Rightarrow> clearTimeout h st | None \<Rightarrow> st) = {}"
    and "pendingFor (case checkIntervalRef st of Some h \<Rightarrow> clearTimeout h st | None \<Rightarrow> st) ident
           = pendingFor st ident"
    and "notificationTimeoutsRef
           (case checkIntervalRef st of Some h \<Rightarrow> clearTimeout h st | None \<Rightarrow> st)
           = notificationTimeoutsRef st"
    and "nextHandle (case checkIntervalRef st of Some h \<Rightarrow> clearTimeout h st | None \<Rightarrow> st)
           = nextHandle st"
proof -
  show "fresh (case checkIntervalRef st of Some h \<Rightarrow> clearTimeout h st | None \<Rightarrow> st)"
    using assms(1) by (simp add: fresh_clearTimeout split: option.splits)
  show "sweepers (case checkIntervalRef st of Some h \<Rightarrow> clearTimeout h st | None \<Rightarrow> st) = {}"
    using assms(2) by (simp add: sweeper_ok_def sweepers_clearTimeout split: option.splits)
  show "pendingFor (case checkIntervalRef st of Some h \<Rightarrow> clearTimeout h st | None \<Rightarrow> st) ident
          = pendingFor st ident"
  proof (cases "checkIntervalRef st")
    case None
    then show ?thesis by simp
  next
    case (Some h)
    then have "h \<in> sweepers st"
      using assms(2) by (simp add: sweeper_ok_def)
    then have "h \<notin> pendingFor st ident"
      using pendingFor_sweepers_disjoint by blast
    then show ?thesis using Some by (simp add: pendingFor_clearTimeout)
  qed
  show "notificationTimeoutsRef
          (case checkIntervalRef st of Some h \<Rightarrow> clearTimeout h st | None \<Rightarrow> st)
          = notificationTimeoutsRef st"
    by (simp add: clearTimeout_fields split: option.splits)
  show "nextHandle (case checkIntervalRef st of Some h \<Rightarrow> clearTimeout h st | None \<Rightarrow> st)
          = nextHandle st"
    by (simp add: clearTimeout_fields split: option.splits)
qed

lemma startPeriodicCheck_facts:
  assumes "fresh st" and "sweeper_ok st"
  shows "fresh (startPeriodicCheck parse p now items st)"
    and "pendingFor (startPeriodicCheck parse p now items st) ident = pendingFor st ident"
    and "notificationTimeoutsRef (startPeriodicCheck parse p now items st)
           = notificationTimeoutsRef st"
    and "\<exists>h. nextHandle st \<le> h
           \<and> checkIntervalRef (startPeriodicCheck parse p now items st) = Some h
           \<and> sweepers (startPeriodicCheck parse p now items st) = {h}
           \<and> timers (startPeriodicCheck parse p now items st) h = Some (Interval 300000 p items)"
proof -
  let ?st1 = "case checkIntervalRef st of Some h \<Rightarrow> clearTimeout h st | None \<Rightarrow> st"
  let ?st2 = "snd (checkOverdueItems parse p now items ?st1)"
  let ?st3 = "snd (setInterval p items 300000 ?st2)"
  have eq: "startPeriodicCheck parse p now items st
              = ?st3\<lparr>checkIntervalRef := Some (nextHandle ?st2)\<rparr>"
    by (rule startPeriodicCheck_unfold)
  have f2: "fresh ?st2"
    using cleared_sweeper(1) [OF assms] by (rule fresh_checkOverdueItems)
  have f3: "fresh ?st3"
    using f2 by (rule fresh_setInterval)
  show "fresh (startPeriodicCheck parse p now items st)"
    using f3 by (simp add: eq fresh_def)
  have "pendingFor (startPeriodicCheck parse p now items st) ident = pendingFor ?st3 ident"
    by (intro pendingFor_cong) (simp add: eq)
  then show "pendingFor (startPeriodicCheck parse p now items st) ident = pendingFor st ident"
    using f2 cleared_sweeper(1,3) [OF assms]
    by (simp add: pendingFor_setInterval pendingFor_checkOverdueItems)
  show "notificationTimeoutsRef (startPeriodicCheck parse p now items st)
          = notificationTimeoutsRef st"
    by (simp add: eq setInterval_fields checkOverdueItems_fields cleared_sweeper(4) [OF assms])
  have "sweepers (startPeriodicCheck parse p now items st) = sweepers ?st3"
    by (intro sweepers_cong) (simp add: eq)
  then have sw: "sweepers (startPeriodicCheck parse p now items st) = {nextHandle ?st2}"
    using cleared_sweeper(1,2) [OF assms]
    by (simp add: sweepers_setInterval sweepers_checkOverdueItems)
  have "nextHandle ?st1 \<le> nextHandle ?st2"
    by (rule nextHandle_checkOverdueItems_mono)
  then have le: "nextHandle st \<le> nextHandle ?st2"
    by (simp add: cleared_sweeper(5) [OF assms])
  have "timers (startPeriodicCheck parse p now items st) (nextHandle ?st2)
          = Some (Interval 300000 p items)"
    by (simp add: eq setInterval_fields)
  then show "\<exists>h. nextHandle st \<le> h
           \<and> checkIntervalRef (startPeriodicCheck parse p now items st) = Some h
           \<and> sweepers (startPeriodicCheck parse p now items st) = {h}
           \<and> timers (startPeriodicCheck parse p now items st) h = Some (Interval 300000 p items)"
    using sw le by (intro exI [of _ "nextHandle ?st2"]) (simp add: eq)
qed

lemma consistent_startPeriodicCheck:
  assumes "consistent st"
  shows "consistent (startPeriodicCheck parse p now items st)"
proof -
  let ?st' = "startPeriodicCheck parse p now items st"
  have f: "fresh st" and r: "registry_ok st" and s: "sweeper_ok st"
    using assms by (simp_all add: consistent_def)
  have f': "fresh ?st'"
    using f s by (rule startPeriodicCheck_facts(1))
  have reg: "notificationTimeoutsRef ?st' = notificationTimeoutsRef st"
    using f s by (rule startPeriodicCheck_facts(3))
  have pend: "pendingFor ?st' ident = pendingFor st ident" for ident
    using f s by (rule startPeriodicCheck_facts(2))
  have r': "registry_ok ?st'"
    unfolding registry_ok_def reg pend using r by (simp add: registry_ok_def)
  obtain h where "checkIntervalRef ?st' = Some h" and "sweepers ?st' = {h}"
    using startPeriodicCheck_facts(4) [OF f s, of parse p now items] by blast
  then have s': "sweeper_ok ?st'"
    by (simp add: sweeper_ok_def)
  show ?thesis
    unfolding consistent_def using f' r' s' by blast
qed

lemma stopChecking_unfold:
  "stopChecking st =
     (case checkIntervalRef st of Some h \<Rightarrow> clearTimeout h st | None \<Rightarrow> st)
     \<lparr>checkIntervalRef := None\<rparr>"
  by (simp add: stopChecking_def clearInterval_eq split: option.splits)

lemma stopChecking_facts:
  assumes "fresh st" and "sweeper_ok st"
  shows "fresh (stopChecking st)"
    and "pendingFor (stopChecking st) ident = pendingFor st ident"
    and "notificationTimeoutsRef (stopChecking st) = notificationTimeoutsRef st"
    and "sweepers (stopChecking st) = {}"
    and "checkIntervalRef (stopChecking st) = None"
    and "nextHandle (stopChecking st) = nextHandle st"
proof -
  let ?st1 = "case checkIntervalRef st of Some h \<Rightarrow> clearTimeout h st | None \<Rightarrow> st"
  have eq: "stopChecking st = ?st1\<lparr>checkIntervalRef := None\<rparr>"
    by (rule stopChecking_unfold)
  show "fresh (stopChecking st)"
    using cleared_sweeper(1) [OF assms] by (simp add: eq fresh_def)
  have "pendingFor (stopChecking st) ident = pendingFor ?st1 ident"
    by (intro pendingFor_cong) (simp add: eq)
  then show "pendingFor (stopChecking st) ident = pendingFor st ident"
    by (simp add: cleared_sweeper(3) [OF assms])
  show "notificationTimeoutsRef (stopChecking st) = notificationTimeoutsRef st"
    by (simp add: eq cleared_sweeper(4) [OF assms])
  have "sweepers (stopChecking st) = sweepers ?st1"
    by (intro sweepers_cong) (simp add: eq)
  then show "sweepers (stopChecking st) = {}"
    by (simp add: cleared_sweeper(2) [OF assms])
  show "checkIntervalRef (stopChecking st) = None"
    by (simp add: eq)
  show "nextHandle (stopChecking st) = nextHandle st"
    by (simp add: eq cleared_sweeper(5) [OF assms])
qed

lemma consistent_stopChecking:
  assumes "consistent st"
  shows "consistent (stopChecking st)"
proof -
  have f: "fresh st" and r: "registry_ok st" and s: "sweeper_ok st"
    using assms by (simp_all add: consistent_def)
  have reg: "notificationTimeoutsRef (stopChecking st) = notificationTimeoutsRef st"
    using f s by (rule stopChecking_facts(3))
  have pend: "pendingFor (stopChecking st) ident = pendingFor st ident" for ident
    using f s by (rule stopChecking_facts(2))
  have r': "registry_ok (stopChecking st)"
    unfolding registry_ok_def reg pend using r by (simp add: registry_ok_def)
  have s': "sweeper_ok (stopChecking st)"
    by (simp add: sweeper_ok_def stopChecking_facts(4,5) [OF f s])
  show ?thesis
    unfolding consistent_def using stopChecking_facts(1) [OF f s] r' s' by blast
qed

lemma fireInterval_cases:
  "fireInterval parse now h st =
     (case timers st h of
        Some (Interval d p items) \<Rightarrow> snd (checkOverdueItems parse p now items st)
      | _ \<Rightarrow> st)"
  by (simp add: fireInterval_def)

lemma consistent_fireInterval:
  "consistent st \<Longrightarrow> consistent (fireInterval parse now h st)"
  by (simp add: fireInterval_cases consistent_checkOverdueItems
      split: option.splits timer.splits)

section \<open>Teardown\<close>

lemma clear_all_fields:
  "hasNotification (fold (\<lambda>(k, timeout) s. clearTimeout timeout s) xs st) = hasNotification st"
  "checkIntervalRef (fold (\<lambda>(k, timeout) s. clearTimeout timeout s) xs st) = checkIntervalRef st"
  "shown (fold (\<lambda>(k, timeout) s. clearTimeout timeout s) xs st) = shown st"
  "nextHandle (fold (\<lambda>(k, timeout) s. clearTimeout timeout s) xs st) = nextHandle st"
  "notificationTimeoutsRef (fold (\<lambda>(k, timeout) s. clearTimeout timeout s) xs st)
     = notificationTimeoutsRef st"
  by (induction xs arbitrary: st) (simp_all add: clearTimeout_fields split_beta)

lemma clear_all_timers:
  "timers (fold (\<lambda>(k, timeout) s. clearTimeout timeout s) xs st) h =
     (if h \<in> snd ` set xs then None else timers st h)"
  by (induction xs arbitrary: st) (auto simp add: clearTimeout_fields split_beta)

lemma stopAllNotifications_unfold:
  "stopAllNotifications st =
     (fold (\<lambda>(k, timeout) s. clearTimeout timeout s)
        (notificationTimeoutsRef (stopChecking st)) (stopChecking st))
     \<lparr>notificationTimeoutsRef := []\<rparr>"
  by (simp add: stopAllNotifications_def stopChecking_def Let_def)

lemma stopAllNotifications_fields:
  "hasNotification (stopAllNotifications st) = hasNotification st"
  "shown (stopAllNotifications st) = shown st"
  "nextHandle (stopAllNotifications st) = nextHandle st"
  "notificationTimeoutsRef (stopAllNotifications st) = []"
  "checkIntervalRef (stopAllNotifications st) = None"
  by (simp_all add: stopAllNotifications_unfold clear_all_fields stopChecking_unfold
      clearTimeout_fields split: option.splits)

lemma stopAllNotifications_timers:
  "timers (stopAllNotifications st) h =
     (if h \<in> snd ` set (notificationTimeoutsRef st) \<or> checkIntervalRef st = Some h
      then None else timers st h)"
  by (simp add: stopAllNotifications_unfold clear_all_timers stopChecking_unfold
      clearTimeout_fields split: option.splits)

lemma stopAllNotifications_facts:
  assumes "consistent st"
  shows "fresh (stopAllNotifications st)"
    and "pendingFor (stopAllNotifications st) ident = {}"
    and "sweepers (stopAllNotifications st) = {}"
proof -
  have f: "fresh st" and r: "registry_ok st" and s: "sweeper_ok st"
    using assms by (simp_all add: consistent_def)
  show "fresh (stopAllNotifications st)"
    using f by (simp add: fresh_def stopAllNotifications_timers stopAllNotifications_fields)
  show "pendingFor (stopAllNotifications st) ident = {}"
  proof -
    have "h \<notin> pendingFor (stopAllNotifications st) ident" for h
    proof
      assume "h \<in> pendingFor (stopAllNotifications st) ident"
      then have old: "h \<in> pendingFor st ident"
        and out: "h \<notin> snd ` set (notificationTimeoutsRef st)"
        by (auto simp add: pendingFor_def stopAllNotifications_timers split: if_splits)
      from old have "map_of (notificationTimeoutsRef st) ident = Some h"
        using r by (simp add: registry_ok_pending)
      then have "(ident, h) \<in> set (notificationTimeoutsRef st)"
        by (rule map_of_SomeD)
      then have "h \<in> snd ` set (notificationTimeoutsRef st)"
        by force
      with out show False by simp
    qed
    then show ?thesis by blast
  qed
  show "sweepers (stopAllNotifications st) = {}"
  proof -
    have "h \<notin> sweepers (stopAllNotifications st)" for h
    proof
      assume "h \<in> sweepers (stopAllNotifications st)"
      then have old: "h \<in> sweepers st" and out: "checkIntervalRef st \<noteq> Some h"
        by (auto simp add: sweepers_def stopAllNotifications_timers split: if_splits)
      from old have "checkIntervalRef st = Some h"
        using s by (cases "checkIntervalRef st") (auto simp add: sweeper_ok_def)
      with out show False by simp
    qed
    then show ?thesis by blast
  qed
qed

lemma consistent_stopAllNotifications:
  assumes "consistent st"
  shows "consistent (stopAllNotifications st)"
  using stopAllNotifications_facts [OF assms]
  by (simp add: consistent_def registry_ok_def sweeper_ok_def stopAllNotifications_fields)

section \<open>Every run keeps the state consistent\<close>

lemma consistent_exec: "consistent st \<Longrightarrow> consistent (exec parse a st)"
  by (cases a)
    (simp_all add: consistent_showNotification consistent_scheduleNotification
      consistent_cancelNotification consistent_scheduleRevisionReminder
      consistent_checkOverdueItems consistent_startPeriodicCheck consistent_stopChecking
      consistent_stopAllNotifications consistent_fireTimeout consistent_fireInterval)

lemma run_Nil: "run parse [] st = st"
  by (simp add: run_def)

lemma run_Cons: "run parse (a # acts) st = run parse acts (exec parse a st)"
  by (simp add: run_def)

lemma run_append: "run parse (acts @ acts') st = run parse acts' (run parse acts st)"
  by (simp add: run_def)

lemma consistent_run: "consistent st \<Longrightarrow> consistent (run parse acts st)"
  by (induction acts arbitrary: st) (simp_all add: run_Nil run_Cons consistent_exec)

lemma consistent_reachable: "consistent (run parse acts (init hn))"
  by (rule consistent_run) (rule consistent_init)

lemma consistent_at_most_one:
  assumes "consistent st"
  shows "card (pendingFor st ident) \<le> 1" and "card (sweepers st) \<le> 1"
proof -
  have "pendingFor st ident = set_option (map_of (notificationTimeoutsRef st) ident)"
    using assms by (simp add: consistent_def registry_ok_def)
  then show "card (pendingFor st ident) \<le> 1"
    by (cases "map_of (notificationTimeoutsRef st) ident") simp_all
  have "sweepers st = set_option (checkIntervalRef st)"
    using assms by (simp add: consistent_def sweeper_ok_def)
  then show "card (sweepers st) \<le> 1"
    by (cases "checkIntervalRef st") simp_all
qed

section \<open>Retired handles stay retired\<close>

lemma retired_showNotification:
  "retired st h \<Longrightarrow> retired (snd (showNotification p t b tag st)) h"
  by (simp add: retired_def showNotification_fields)

lemma retired_checkOverdueItems:
  assumes "retired st h"
  shows "retired (snd (checkOverdueItems parse p now items st)) h"
proof -
  have lt: "h < nextHandle st" and none: "timers st h = None"
    using assms by (simp_all add: retired_def)
  have "nextHandle st \<le> nextHandle (snd (checkOverdueItems parse p now items st))"
    by (rule nextHandle_checkOverdueItems_mono)
  then have "h < nextHandle (snd (checkOverdueItems parse p now items st))"
    using lt by simp
  moreover have "timers (snd (checkOverdueItems parse p now items st)) h = None"
    using lt none by (simp add: timers_checkOverdueItems_old)
  ultimately show ?thesis by (simp add: retired_def)
qed

lemma retired_clearTimeout: "retired st h \<Longrightarrow> retired (clearTimeout h' st) h"
  by (simp add: retired_def clearTimeout_fields)

lemma retired_scheduleNotification:
  "retired st h \<Longrightarrow> retired (scheduleNotification p ident t b d c st) h"
  by (cases "p = Granted")
    (auto simp add: retired_def scheduleNotification_fields scheduleNotification_ungranted
      split: option.splits)

lemma retired_cancelNotification:
  "retired st h \<Longrightarrow> retired (cancelNotification ident st) h"
  by (auto simp add: retired_def cancelNotification_fields split: option.splits)

lemma retired_runCallback: "retired st h \<Longrightarrow> retired (runCallback cb st) h"
  using retired_showNotification
  by (cases cb) (simp_all add: retired_def runCallback_fields)

lemma retired_fireTimeout: "retired st h \<Longrightarrow> retired (fireTimeout h' st) h"
proof (cases "\<exists>d cb. timers st h' = Some (Timeout d cb)")
  case False
  assume "retired st h"
  then show ?thesis using False by (simp add: fireTimeout_other)
next
  case True
  assume "retired st h"
  then have "retired (clearTimeout h' st) h"
    by (rule retired_clearTimeout)
  then show ?thesis
    using True by (auto simp add: fireTimeout_Timeout retired_runCallback)
qed

lemma retired_scheduleRevisionReminder:
  "retired st h \<Longrightarrow> retired (scheduleRevisionReminder parse p now ident ttl v st) h"
  by (simp add: scheduleRevisionReminder_cases retired_showNotification
      retired_scheduleNotification split: option.splits)

lemma retired_startPeriodicCheck:
  assumes "retired st h"
  shows "retired (startPeriodicCheck parse p now items st) h"
proof -
  let ?st1 = "case checkIntervalRef st of Some h \<Rightarrow> clearTimeout h st | None \<Rightarrow> st"
  let ?st2 = "snd (checkOverdueItems parse p now items ?st1)"
  have "retired ?st1 h"
    using assms by (simp add: retired_clearTimeout split: option.splits)
  then have "retired ?st2 h"
    by (rule retired_checkOverdueItems)
  then show ?thesis
    by (simp add: retired_def startPeriodicCheck_unfold setInterval_fields)
qed

lemma retired_stopChecking: "retired st h \<Longrightarrow> retired (stopChecking st) h"
  by (simp add: retired_def stopChecking_unfold clearTimeout_fields split: option.splits)

lemma retired_stopAllNotifications: "retired st h \<Longrightarrow> retired (stopAllNotifications st) h"
  by (simp add: retired_def stopAllNotifications_timers stopAllNotifications_fields)

lemma retired_fireInterval: "retired st h \<Longrightarrow> retired (fireInterval parse now h' st) h"
  by (simp add: fireInterval_cases retired_checkOverdueItems split: option.splits timer.splits)

lemma retired_exec: "retired st h \<Longrightarrow> retired (exec parse a st) h"
  by (cases a)
    (simp_all add: retired_showNotification retired_scheduleNotification
      retired_cancelNotification retired_scheduleRevisionReminder retired_checkOverdueItems
      retired_startPeriodicCheck retired_stopChecking retired_stopAllNotifications
      retired_fireTimeout retired_fireInterval)

lemma retired_run: "retired st h \<Longrightarrow> retired (run parse acts st) h"
  by (induction acts arbitrary: st) (simp_all add: run_Nil run_Cons retired_exec)

lemma retired_never_fires:
  assumes "retired st h"
  shows "timers (run parse acts st) h = None"
    and "fireTimeout h (run parse acts st) = run parse acts st"
    and "fireInterval parse now h (run parse acts st) = run parse acts st"
proof -
  have "retired (run parse acts st) h"
    using assms by (rule retired_run)
  then show none: "timers (run parse acts st) h = None"
    by (simp add: retired_def)
  then show "fireTimeout h (run parse acts st) = run parse acts st"
    by (simp add: fireTimeout_def)
  from none show "fireInterval parse now h (run parse acts st) = run parse acts st"
    by (simp add: fireInterval_def)
qed

section \<open>No sweeper without a start\<close>

lemma checkIntervalRef_scheduleNotification:
  "checkIntervalRef (scheduleNotification p ident t b d c st) = checkIntervalRef st"
  by (cases "p = Granted")
    (simp_all add: scheduleNotification_fields scheduleNotification_ungranted)

lemma checkIntervalRef_scheduleRevisionReminder:
  "checkIntervalRef (scheduleRevisionReminder parse p now ident ttl v st) = checkIntervalRef st"
  by (simp add: scheduleRevisionReminder_cases showNotification_fields
      checkIntervalRef_scheduleNotification split: option.splits)

lemma checkIntervalRef_fireTimeout:
  "checkIntervalRef (fireTimeout h st) = checkIntervalRef st"
  by (simp add: fireTimeout_def runCallback_fields split: option.splits timer.splits)

lemma checkIntervalRef_fireInterval:
  "checkIntervalRef (fireInterval parse now h st) = checkIntervalRef st"
  by (simp add: fireInterval_cases checkOverdueItems_fields split: option.splits timer.splits)

lemma no_start_exec:
  "checkIntervalRef st = None \<Longrightarrow> \<not> isStart a \<Longrightarrow> checkIntervalRef (exec parse a st) = None"
  by (cases a)
    (simp_all add: showNotification_fields checkIntervalRef_scheduleNotification
      cancelNotification_fields checkIntervalRef_scheduleRevisionReminder
      checkOverdueItems_fields stopChecking_unfold stopAllNotifications_fields
      checkIntervalRef_fireTimeout checkIntervalRef_fireInterval)

lemma no_start_run:
  "checkIntervalRef st = None \<Longrightarrow> \<forall>a \<in> set acts. \<not> isStart a \<Longrightarrow>
     checkIntervalRef (run parse acts st) = None"
  by (induction acts arbitrary: st) (simp_all add: run_Nil run_Cons no_start_exec)

lemma no_sweeper_without_start:
  assumes "consistent st" and "checkIntervalRef st = None" and "\<forall>a \<in> set acts. \<not> isStart a"
  shows "sweepers (run parse acts st) = {}"
    and "fireInterval parse now h (run parse acts st) = run parse acts st"
proof -
  have "consistent (run parse acts st)"
    using assms(1) by (rule consistent_run)
  moreover have "checkIntervalRef (run parse acts st) = None"
    using assms(2,3) by (rule no_start_run)
  ultimately show sw: "sweepers (run parse acts st) = {}"
    by (simp add: consistent_def sweeper_ok_def)
  have "\<forall>d p its. timers (run parse acts st) h \<noteq> Some (Interval d p its)"
    using sw by (auto simp add: sweepers_def)
  then show "fireInterval parse now h (run parse acts st) = run parse acts st"
    by (auto simp add: fireInterval_cases split: option.splits timer.splits)
qed

section \<open>Interval lookup\<close>

lemma length_intervals: "length intervals = 5"
  by (simp add: intervals_def)

text \<open>
  C7: for every non-negative review count the interval is the table entry at
  \<open>min(reviewCount, len(table) - 1)\<close> of the table 1h, 1d, 3d, 1w, 2w (in milliseconds);
  a count of 0 gives one hour, 3 gives one week, and 10 (as every count from 4 on) gives
  two weeks.
\<close>

theorem nextInterval_clamps:
  "0 \<le> rc \<Longrightarrow>
     nextInterval (Some rc) = Some (intervals ! nat (min rc (int (length intervals) - 1)))
     \<and> intervals = [60 * 60 * 1000, 24 * 60 * 60 * 1000, 3 * 24 * 60 * 60 * 1000,
                     7 * 24 * 60 * 60 * 1000, 14 * 24 * 60 * 60 * 1000]
     \<and> nextInterval (Some 0) = Some (60 * 60 * 1000)
     \<and> nextInterval (Some 3) = Some (7 * 24 * 60 * 60 * 1000)
     \<and> nextInterval (Some 10) = Some (14 * 24 * 60 * 60 * 1000)
     \<and> (4 \<le> rc \<longrightarrow> nextInterval (Some rc) = Some (14 * 24 * 60 * 60 * 1000))"
  by (auto simp add: nextInterval_def intervals_def min_def)

theorem nextInterval_clamps_witness:
  "(0::int) \<le> 7 \<and> nextInterval (Some 7) = Some 1209600000
     \<and> nextInterval (Some 1) = Some 86400000 \<and> nextInterval (Some 2) = Some 259200000"
  using nextInterval_clamps [of 7] nextInterval_clamps [of 1] nextInterval_clamps [of 2]
  by (simp add: intervals_def)

section \<open>The three-way reminder policy\<close>

text \<open>
  C1: with permission granted and the notification capability present, for a next-review
  value that is a definite time \<open>t\<close>, \<open>scheduleRevisionReminder\<close> called at clock reading
  \<open>now\<close> does one of three things. If \<open>t \<le> now\<close> it surfaces a notification tagged with
  the item's id at once and leaves the timer map, and every id's pending timeouts, as they
  were. If \<open>0 < t - now \<le> 7 days\<close> it leaves exactly one pending timeout for the id, the
  one the map holds, with delay \<open>t - now\<close>, and surfaces nothing. If \<open>t - now > 7 days\<close>
  the state is unchanged.
\<close>

theorem scheduleRevisionReminder_policy:
  assumes "consistent st" and "hasNotification st" and "dateTime parse nextReviewTime = Some t"
  shows
    "(t \<le> now \<longrightarrow>
        shown (scheduleRevisionReminder parse Granted now itemId itemTitle nextReviewTime st)
          = shown st @ [\<lparr>n_title = ReminderHeading, n_body = OverdueReviewBody itemTitle,
                          n_tag = itemId, n_onclick = False, n_closed = False\<rparr>]
        \<and> notificationTimeoutsRef
              (scheduleRevisionReminder parse Granted now itemId itemTitle nextReviewTime st)
            = notificationTimeoutsRef st
        \<and> (\<forall>ident. pendingFor
              (scheduleRevisionReminder parse Granted now itemId itemTitle nextReviewTime st) ident
            = pendingFor st ident))
     \<and> (0 < t - now \<and> t - now \<le> 7 * 24 * 60 * 60 * 1000 \<longrightarrow>
        (\<exists>h. pendingFor
                (scheduleRevisionReminder parse Granted now itemId itemTitle nextReviewTime st)
                itemId = {h}
            \<and> map_of (notificationTimeoutsRef
                  (scheduleRevisionReminder parse Granted now itemId itemTitle nextReviewTime st))
                itemId = Some h
            \<and> timers (scheduleRevisionReminder parse Granted now itemId itemTitle nextReviewTime st) h
                = Some (Timeout (t - now)
                    (Remind Granted itemId ReminderHeading (TimeToReviewBody itemTitle) True)))
        \<and> shown (scheduleRevisionReminder parse Granted now itemId itemTitle nextReviewTime st)
            = shown st)
     \<and> (7 * 24 * 60 * 60 * 1000 < t - now \<longrightarrow>
        scheduleRevisionReminder parse Granted now itemId itemTitle nextReviewTime st = st)"
proof -
  let ?st' = "scheduleRevisionReminder parse Granted now itemId itemTitle nextReviewTime st"
  have f: "fresh st" and r: "registry_ok st"
    using assms(1) by (simp_all add: consistent_def)
  have immediate: "?st' = snd (showNotification Granted ReminderHeading
                      (OverdueReviewBody itemTitle) itemId st)" if "t \<le> now"
    using that assms(3) by (simp add: scheduleRevisionReminder_cases)
  have deferred: "?st' = scheduleNotification Granted itemId ReminderHeading
                      (TimeToReviewBody itemTitle) (t - now) True st"
    if "0 < t - now" and "t - now \<le> 7 * 24 * 60 * 60 * 1000"
    using that assms(3) by (simp add: scheduleRevisionReminder_cases)
  have suppressed: "?st' = st" if "7 * 24 * 60 * 60 * 1000 < t - now"
    using that assms(3) by (simp add: scheduleRevisionReminder_cases)
  have one: "shown ?st' = shown st @ [\<lparr>n_title = ReminderHeading,
                 n_body = OverdueReviewBody itemTitle, n_tag = itemId,
                 n_onclick = False, n_closed = False\<rparr>]
             \<and> notificationTimeoutsRef ?st' = notificationTimeoutsRef st
             \<and> (\<forall>ident. pendingFor ?st' ident = pendingFor st ident)" if "t \<le> now"
    using assms(2) f
    by (simp add: immediate [OF that] showNotification_fields pendingFor_showNotification)
  have two: "(\<exists>h. pendingFor ?st' itemId = {h}
               \<and> map_of (notificationTimeoutsRef ?st') itemId = Some h
               \<and> timers ?st' h = Some (Timeout (t - now)
                    (Remind Granted itemId ReminderHeading (TimeToReviewBody itemTitle) True)))
             \<and> shown ?st' = shown st"
    if "0 < t - now" and "t - now \<le> 7 * 24 * 60 * 60 * 1000"
  proof -
    have "pendingFor ?st' itemId = {nextHandle st}"
      by (simp add: deferred [OF that] pendingFor_scheduleNotification [OF f r])
    moreover have "map_of (notificationTimeoutsRef ?st') itemId = Some (nextHandle st)"
      by (simp add: deferred [OF that] scheduleNotification_fields AList.update_conv')
    moreover have "timers ?st' (nextHandle st) = Some (Timeout (t - now)
        (Remind Granted itemId ReminderHeading (TimeToReviewBody itemTitle) True))"
      by (simp add: deferred [OF that] scheduleNotification_fields)
    moreover have "shown ?st' = shown st"
      by (simp add: deferred [OF that] scheduleNotification_fields)
    ultimately show ?thesis by blast
  qed
  show ?thesis
    using one two suppressed by blast
qed

theorem scheduleRevisionReminder_policy_witness:
  "consistent (init True) \<and> hasNotification (init True)
   \<and> dateTime parseSample (Str ''2025-01-01T00:00:00.000Z'') = Some 1735689600000
   \<and> dateTime parseSample (Str ''2025-01-01T01:00:00.000Z'') = Some 1735693200000
   \<and> dateTime parseSample (Str ''2025-02-01T00:00:00.000Z'') = Some 1738368000000
   \<and> shown (scheduleRevisionReminder parseSample Granted 1735689600000 ''a'' (Str ''Optics'')
        (Str ''2025-01-01T00:00:00.000Z'') (init True))
      = [\<lparr>n_title = ReminderHeading, n_body = OverdueReviewBody (Str ''Optics''),
          n_tag = ''a'', n_onclick = False, n_closed = False\<rparr>]
   \<and> notificationTimeoutsRef (scheduleRevisionReminder parseSample Granted 1735689600000 ''a''
        (Str ''Optics'') (Str ''2025-01-01T00:00:00.000Z'') (init True)) = []
   \<and> (\<exists>h. pendingFor (scheduleRevisionReminder parseSample Granted 1735689600000 ''a''
              (Str ''Optics'') (Str ''2025-01-01T01:00:00.000Z'') (init True)) ''a'' = {h}
          \<and> timers (scheduleRevisionReminder parseSample Granted 1735689600000 ''a''
              (Str ''Optics'') (Str ''2025-01-01T01:00:00.000Z'') (init True)) h
            = Some (Timeout 3600000
                (Remind Granted ''a'' ReminderHeading (TimeToReviewBody (Str ''Optics'')) True)))
   \<and> scheduleRevisionReminder parseSample Granted 1735689600000 ''a'' (Str ''Optics'')
        (Str ''2025-02-01T00:00:00.000Z'') (init True) = init True"
proof -
  have c: "consistent (init True)"
    by (rule consistent_init)
  have h: "hasNotification (init True)"
    by (simp add: init_def)
  have d0: "dateTime parseSample (Str ''2025-01-01T00:00:00.000Z'') = Some 1735689600000"
    and d1: "dateTime parseSample (Str ''2025-01-01T01:00:00.000Z'') = Some 1735693200000"
    and d2: "dateTime parseSample (Str ''2025-02-01T00:00:00.000Z'') = Some 1738368000000"
    by (simp_all add: parseSample_def)
  have s: "shown (init True) = []" "notificationTimeoutsRef (init True) = []"
    by (simp_all add: init_def)
  show ?thesis
    using scheduleRevisionReminder_policy [OF c h d0, of 1735689600000 "''a''" "Str ''Optics''"]
      scheduleRevisionReminder_policy [OF c h d1, of 1735689600000 "''a''" "Str ''Optics''"]
      scheduleRevisionReminder_policy [OF c h d2, of 1735689600000 "''a''" "Str ''Optics''"]
      c h d0 d1 d2 s
    by auto
qed

section \<open>One pending timer per id\<close>

lemma distinct_keys_filter:
  "distinct (map fst xs) \<Longrightarrow> length (filter (\<lambda>e. fst e = k) xs) \<le> 1"
proof (induction xs)
  case Nil
  show ?case by simp
next
  case (Cons x xs)
  show ?case
  proof (cases "fst x = k")
    case True
    then have "k \<notin> fst ` set xs"
      using Cons.prems by auto
    then have "filter (\<lambda>e. fst e = k) xs = []"
      by (auto simp add: filter_empty_conv)
    then show ?thesis using True by simp
  next
    case False
    then show ?thesis using Cons by simp
  qed
qed

lemma scheduleNotification_replaces:
  assumes "consistent st"
  shows "pendingFor (scheduleNotification Granted ident t b d c st) ident = {nextHandle st}"
    and "map_of (notificationTimeoutsRef (scheduleNotification Granted ident t b d c st)) ident
           = Some (nextHandle st)"
    and "timers (scheduleNotification Granted ident t b d c st) (nextHandle st)
           = Some (Timeout d (Remind Granted ident t b c))"
    and "map_of (notificationTimeoutsRef st) ident = Some h0 \<Longrightarrow>
           h0 \<noteq> nextHandle st \<and> retired (scheduleNotification Granted ident t b d c st) h0"
proof -
  have f: "fresh st" and r: "registry_ok st"
    using assms by (simp_all add: consistent_def)
  show "pendingFor (scheduleNotification Granted ident t b d c st) ident = {nextHandle st}"
    by (simp add: pendingFor_scheduleNotification [OF f r])
  show "map_of (notificationTimeoutsRef (scheduleNotification Granted ident t b d c st)) ident
          = Some (nextHandle st)"
    by (simp add: scheduleNotification_fields AList.update_conv')
  show "timers (scheduleNotification Granted ident t b d c st) (nextHandle st)
          = Some (Timeout d (Remind Granted ident t b c))"
    by (simp add: scheduleNotification_fields)
  show "h0 \<noteq> nextHandle st \<and> retired (scheduleNotification Granted ident t b d c st) h0"
    if old: "map_of (notificationTimeoutsRef st) ident = Some h0"
  proof -
    have "h0 \<in> pendingFor st ident"
      using r old by (simp add: registry_ok_lookup)
    then have "timers st h0 \<noteq> None"
      by (auto simp add: pendingFor_def)
    then have lt: "h0 < nextHandle st"
      using f by (simp add: fresh_def)
    then show ?thesis
      using old by (simp add: retired_def scheduleNotification_fields)
  qed
qed

text \<open>
  C2: in every state a run of the hook reaches, each id has at most one pending reminder
  timeout, namely the one the map holds for it, and at most one map entry. With permission
  granted, \<open>scheduleNotification\<close> for an id that has a pending timeout retires the old
  handle and leaves exactly one pending timeout, the new one with the new delay. Two
  successive \<open>scheduleRevisionReminder\<close> calls for one id with delays within seven days
  leave exactly one pending timeout, with the second delay; the first handle is retired and
  cannot fire in any later run. After a reminder timeout fires, or after
  \<open>cancelNotification\<close>, the map has no entry and the host no pending timeout for that id.
\<close>

theorem registry_one_timer_per_id:
  assumes "consistent st"
  shows
    "(\<forall>ident'. card (pendingFor (run parse acts (init hn)) ident') \<le> 1
        \<and> pendingFor (run parse acts (init hn)) ident'
            = set_option (map_of (notificationTimeoutsRef (run parse acts (init hn))) ident')
        \<and> length (filter (\<lambda>e. fst e = ident')
              (notificationTimeoutsRef (run parse acts (init hn)))) \<le> 1)
     \<and> (\<forall>h0. map_of (notificationTimeoutsRef st) ident = Some h0 \<longrightarrow>
          retired (scheduleNotification Granted ident t b d c st) h0
          \<and> (\<exists>h. h \<noteq> h0
                \<and> pendingFor (scheduleNotification Granted ident t b d c st) ident = {h}
                \<and> map_of (notificationTimeoutsRef
                      (scheduleNotification Granted ident t b d c st)) ident = Some h
                \<and> timers (scheduleNotification Granted ident t b d c st) h
                    = Some (Timeout d (Remind Granted ident t b c))))
     \<and> (dateTime parse v1 = Some t1 \<and> 0 < t1 - now1 \<and> t1 - now1 \<le> 7 * 24 * 60 * 60 * 1000
          \<and> dateTime parse v2 = Some t2 \<and> 0 < t2 - now2 \<and> t2 - now2 \<le> 7 * 24 * 60 * 60 * 1000 \<longrightarrow>
          (\<exists>h1 h2. h1 \<noteq> h2
             \<and> pendingFor (scheduleRevisionReminder parse Granted now1 ident ttl1 v1 st) ident = {h1}
             \<and> pendingFor (scheduleRevisionReminder parse Granted now2 ident ttl2 v2
                  (scheduleRevisionReminder parse Granted now1 ident ttl1 v1 st)) ident = {h2}
             \<and> timers (scheduleRevisionReminder parse Granted now2 ident ttl2 v2
                  (scheduleRevisionReminder parse Granted now1 ident ttl1 v1 st)) h2
                 = Some (Timeout (t2 - now2)
                     (Remind Granted ident ReminderHeading (TimeToReviewBody ttl2) True))
             \<and> (\<forall>later. timers (run parse later
                    (scheduleRevisionReminder parse Granted now2 ident ttl2 v2
                      (scheduleRevisionReminder parse Granted now1 ident ttl1 v1 st))) h1 = None
                  \<and> fireTimeout h1 (run parse later
                    (scheduleRevisionReminder parse Granted now2 ident ttl2 v2
                      (scheduleRevisionReminder parse Granted now1 ident ttl1 v1 st)))
                    = run parse later
                    (scheduleRevisionReminder parse Granted now2 ident ttl2 v2
                      (scheduleRevisionReminder parse Granted now1 ident ttl1 v1 st)))))
     \<and> (\<forall>h dl p tt bd oc. timers st h = Some (Timeout dl (Remind p ident tt bd oc)) \<longrightarrow>
          map_of (notificationTimeoutsRef (fireTimeout h st)) ident = None
          \<and> pendingFor (fireTimeout h st) ident = {})
     \<and> map_of (notificationTimeoutsRef (cancelNotification ident st)) ident = None
     \<and> pendingFor (cancelNotification ident st) ident = {}"
proof -
  have f: "fresh st" and r: "registry_ok st"
    using assms by (simp_all add: consistent_def)
  have reach: "consistent (run parse acts (init hn))"
    by (rule consistent_reachable)
  have A: "card (pendingFor (run parse acts (init hn)) ident') \<le> 1
        \<and> pendingFor (run parse acts (init hn)) ident'
            = set_option (map_of (notificationTimeoutsRef (run parse acts (init hn))) ident')
        \<and> length (filter (\<lambda>e. fst e = ident')
              (notificationTimeoutsRef (run parse acts (init hn)))) \<le> 1" for ident'
  proof -
    have ok: "registry_ok (run parse acts (init hn))"
      using reach by (simp add: consistent_def)
    then have "distinct (map fst (notificationTimeoutsRef (run parse acts (init hn))))"
      by (simp add: registry_ok_def)
    then have "length (filter (\<lambda>e. fst e = ident')
                 (notificationTimeoutsRef (run parse acts (init hn)))) \<le> 1"
      by (rule distinct_keys_filter)
    moreover have "pendingFor (run parse acts (init hn)) ident'
        = set_option (map_of (notificationTimeoutsRef (run parse acts (init hn))) ident')"
      using ok by (simp add: registry_ok_def)
    moreover have "card (pendingFor (run parse acts (init hn)) ident') \<le> 1"
      using reach by (rule consistent_at_most_one)
    ultimately show ?thesis by blast
  qed
  have B: "retired (scheduleNotification Granted ident t b d c st) h0
          \<and> (\<exists>h. h \<noteq> h0
                \<and> pendingFor (scheduleNotification Granted ident t b d c st) ident = {h}
                \<and> map_of (notificationTimeoutsRef
                      (scheduleNotification Granted ident t b d c st)) ident = Some h
                \<and> timers (scheduleNotification Granted ident t b d c st) h
                    = Some (Timeout d (Remind Granted ident t b c)))"
    if "map_of (notificationTimeoutsRef st) ident = Some h0" for h0
    using scheduleNotification_replaces(1,2,3) [OF assms, of ident t b d c]
      scheduleNotification_replaces(4) [OF assms that, of t b d c]
    by (intro conjI exI [of _ "nextHandle st"]) auto
  have C: "\<exists>h1 h2. h1 \<noteq> h2
             \<and> pendingFor (scheduleRevisionReminder parse Granted now1 ident ttl1 v1 st) ident = {h1}
             \<and> pendingFor (scheduleRevisionReminder parse Granted now2 ident ttl2 v2
                  (scheduleRevisionReminder parse Granted now1 ident ttl1 v1 st)) ident = {h2}
             \<and> timers (scheduleRevisionReminder parse Granted now2 ident ttl2 v2
                  (scheduleRevisionReminder parse Granted now1 ident ttl1 v1 st)) h2
                 = Some (Timeout (t2 - now2)
                     (Remind Granted ident ReminderHeading (TimeToReviewBody ttl2) True))
             \<and> (\<forall>later. timers (run parse later
                    (scheduleRevisionReminder parse Granted now2 ident ttl2 v2
                      (scheduleRevisionReminder parse Granted now1 ident ttl1 v1 st))) h1 = None
                  \<and> fireTimeout h1 (run parse later
                    (scheduleRevisionReminder parse Granted now2 ident ttl2 v2
                      (scheduleRevisionReminder parse Granted now1 ident ttl1 v1 st)))
                    = run parse later
                    (scheduleRevisionReminder parse Granted now2 ident ttl2 v2
                      (scheduleRevisionReminder parse Granted now1 ident ttl1 v1 st)))"
    if d1: "dateTime parse v1 = Some t1" "0 < t1 - now1" "t1 - now1 \<le> 7 * 24 * 60 * 60 * 1000"
      and d2: "dateTime parse v2 = Some t2" "0 < t2 - now2" "t2 - now2 \<le> 7 * 24 * 60 * 60 * 1000"
  proof -
    let ?s1 = "scheduleRevisionReminder parse Granted now1 ident ttl1 v1 st"
    let ?s2 = "scheduleRevisionReminder parse Granted now2 ident ttl2 v2 ?s1"
    have e1: "?s1 = scheduleNotification Granted ident ReminderHeading (TimeToReviewBody ttl1)
                      (t1 - now1) True st"
      using d1 by (simp add: scheduleRevisionReminder_cases)
    have e2: "?s2 = scheduleNotification Granted ident ReminderHeading (TimeToReviewBody ttl2)
                      (t2 - now2) True ?s1"
      using d2 by (simp add: scheduleRevisionReminder_cases)
    have c1: "consistent ?s1"
      using assms by (rule consistent_scheduleRevisionReminder)
    have p1: "pendingFor ?s1 ident = {nextHandle st}"
      and m1: "map_of (notificationTimeoutsRef ?s1) ident = Some (nextHandle st)"
      unfolding e1 using assms by (rule scheduleNotification_replaces)+
    have p2: "pendingFor ?s2 ident = {nextHandle ?s1}"
      and t2: "timers ?s2 (nextHandle ?s1) = Some (Timeout (t2 - now2)
                 (Remind Granted ident ReminderHeading (TimeToReviewBody ttl2) True))"
      using scheduleNotification_replaces(1,3) [OF c1, of ident ReminderHeading
          "TimeToReviewBody ttl2" "t2 - now2" True]
      by (simp_all add: e2 [symmetric])
    have "nextHandle st \<noteq> nextHandle ?s1 \<and> retired ?s2 (nextHandle st)"
      using scheduleNotification_replaces(4) [OF c1 m1, of ReminderHeading
          "TimeToReviewBody ttl2" "t2 - now2" True]
      by (simp add: e2 [symmetric])
    then have ne: "nextHandle st \<noteq> nextHandle ?s1" and ret: "retired ?s2 (nextHandle st)"
      by simp_all
    have "timers (run parse later ?s2) (nextHandle st) = None
            \<and> fireTimeout (nextHandle st) (run parse later ?s2) = run parse later ?s2" for later
      using retired_never_fires(1,2) [OF ret] by simp
    then show ?thesis
      using ne p1 p2 t2 by (intro exI [of _ "nextHandle st"] exI [of _ "nextHandle ?s1"]) simp
  qed
  have D: "map_of (notificationTimeoutsRef (fireTimeout h st)) ident = None
          \<and> pendingFor (fireTimeout h st) ident = {}"
    if "timers st h = Some (Timeout dl (Remind p ident tt bd oc))" for h dl p tt bd oc
    using pendingFor_fireTimeout [OF f r that, of ident] registry_fireTimeout [OF that]
    by (simp add: AList.delete_conv')
  have E: "map_of (notificationTimeoutsRef (cancelNotification ident st)) ident = None
          \<and> pendingFor (cancelNotification ident st) ident = {}"
    by (simp add: cancelNotification_fields pendingFor_cancelNotification [OF r])
  show ?thesis
    using A B C D E by blast
qed

theorem registry_one_timer_per_id_witness:
  "(let s0 = scheduleNotification Granted ''a'' ReminderHeading (TimeToReviewBody (Str ''Optics''))
               5000 True (init True);
        s1 = scheduleNotification Granted ''a'' ReminderHeading (TimeToReviewBody (Str ''Optics''))
               9000 True s0
    in consistent s0
       \<and> map_of (notificationTimeoutsRef s0) ''a'' = Some 1
       \<and> timers s0 1
           = Some (Timeout 5000
               (Remind Granted ''a'' ReminderHeading (TimeToReviewBody (Str ''Optics'')) True))
       \<and> retired s1 1
       \<and> (\<exists>h. h \<noteq> 1 \<and> pendingFor s1 ''a'' = {h}
             \<and> timers s1 h
                 = Some (Timeout 9000
                     (Remind Granted ''a'' ReminderHeading (TimeToReviewBody (Str ''Optics'')) True)))
       \<and> map_of (notificationTimeoutsRef (fireTimeout 1 s0)) ''a'' = None
       \<and> pendingFor (fireTimeout 1 s0) ''a'' = {}
       \<and> map_of (notificationTimeoutsRef (cancelNotification ''a'' s0)) ''a'' = None
       \<and> pendingFor (cancelNotification ''a'' s0) ''a'' = {}
       \<and> card (pendingFor (run parseSample
             [ScheduleNotification Granted ''a'' ReminderHeading (TimeToReviewBody (Str ''Optics''))
                5000 True,
              ScheduleNotification Granted ''a'' ReminderHeading (TimeToReviewBody (Str ''Optics''))
                9000 True] (init True)) ''a'') \<le> 1)
   \<and> dateTime parseSample (Str ''2025-01-01T01:00:00.000Z'') = Some 1735693200000
   \<and> dateTime parseSample (Str ''2025-01-02T00:00:00.000Z'') = Some 1735776000000
   \<and> (\<exists>h1 h2. h1 \<noteq> h2
         \<and> pendingFor (scheduleRevisionReminder parseSample Granted 1735689600000 ''a''
               (Str ''Optics'') (Str ''2025-01-02T00:00:00.000Z'')
               (scheduleRevisionReminder parseSample Granted 1735689600000 ''a'' (Str ''Optics'')
                  (Str ''2025-01-01T01:00:00.000Z'') (init True))) ''a'' = {h2}
         \<and> timers (scheduleRevisionReminder parseSample Granted 1735689600000 ''a''
               (Str ''Optics'') (Str ''2025-01-02T00:00:00.000Z'')
               (scheduleRevisionReminder parseSample Granted 1735689600000 ''a'' (Str ''Optics'')
                  (Str ''2025-01-01T01:00:00.000Z'') (init True))) h2
             = Some (Timeout 86400000
                 (Remind Granted ''a'' ReminderHeading (TimeToReviewBody (Str ''Optics'')) True))
         \<and> timers (scheduleRevisionReminder parseSample Granted 1735689600000 ''a''
               (Str ''Optics'') (Str ''2025-01-02T00:00:00.000Z'')
               (scheduleRevisionReminder parseSample Granted 1735689600000 ''a'' (Str ''Optics'')
                  (Str ''2025-01-01T01:00:00.000Z'') (init True))) h1 = None)"
proof -
  define s0 where "s0 = scheduleNotification Granted ''a'' ReminderHeading
      (TimeToReviewBody (Str ''Optics'')) 5000 True (init True)"
  define s1 where "s1 = scheduleNotification Granted ''a'' ReminderHeading
      (TimeToReviewBody (Str ''Optics'')) 9000 True s0"
  have c0: "consistent (init True)"
    by (rule consistent_init)
  have c: "consistent s0"
    unfolding s0_def using c0 by (rule consistent_scheduleNotification)
  have m: "map_of (notificationTimeoutsRef s0) ''a'' = Some 1"
    by (simp add: s0_def scheduleNotification_fields init_def)
  have tm: "timers s0 1 = Some (Timeout 5000
      (Remind Granted ''a'' ReminderHeading (TimeToReviewBody (Str ''Optics'')) True))"
    by (simp add: s0_def scheduleNotification_fields init_def)
  have d1: "dateTime parseSample (Str ''2025-01-01T01:00:00.000Z'') = Some 1735693200000"
    and d2: "dateTime parseSample (Str ''2025-01-02T00:00:00.000Z'') = Some 1735776000000"
    by (simp_all add: parseSample_def)
  note T = registry_one_timer_per_id [OF c, where parse = parseSample and hn = True
      and ident = "''a''" and t = ReminderHeading and b = "TimeToReviewBody (Str ''Optics'')"
      and d = 9000 and c = True
      and acts = "[ScheduleNotification Granted ''a'' ReminderHeading
                     (TimeToReviewBody (Str ''Optics'')) 5000 True,
                   ScheduleNotification Granted ''a'' ReminderHeading
                     (TimeToReviewBody (Str ''Optics'')) 9000 True]"]
  note U = registry_one_timer_per_id [OF c0, where parse = parseSample and ident = "''a''"
      and ?v1.0 = "Str ''2025-01-01T01:00:00.000Z''" and ?t1.0 = 1735693200000
      and ?now1.0 = 1735689600000 and ?ttl1.0 = "Str ''Optics''"
      and ?v2.0 = "Str ''2025-01-02T00:00:00.000Z''" and ?t2.0 = 1735776000000
      and ?now2.0 = 1735689600000 and ?ttl2.0 = "Str ''Optics''"]
  have A: "card (pendingFor (run parseSample
             [ScheduleNotification Granted ''a'' ReminderHeading (TimeToReviewBody (Str ''Optics''))
                5000 True,
              ScheduleNotification Granted ''a'' ReminderHeading (TimeToReviewBody (Str ''Optics''))
                9000 True] (init True)) ''a'') \<le> 1"
    by (rule T [THEN conjunct1, THEN spec, THEN conjunct1])
  have "retired s1 1
       \<and> (\<exists>h. h \<noteq> 1 \<and> pendingFor s1 ''a'' = {h}
             \<and> map_of (notificationTimeoutsRef s1) ''a'' = Some h
             \<and> timers s1 h
                 = Some (Timeout 9000
                     (Remind Granted ''a'' ReminderHeading (TimeToReviewBody (Str ''Optics'')) True)))"
    unfolding s1_def by (rule T [THEN conjunct2, THEN conjunct1, THEN spec, THEN mp, OF m])
  then have B: "retired s1 1
       \<and> (\<exists>h. h \<noteq> 1 \<and> pendingFor s1 ''a'' = {h}
             \<and> timers s1 h
                 = Some (Timeout 9000
                     (Remind Granted ''a'' ReminderHeading (TimeToReviewBody (Str ''Optics'')) True)))"
    by auto
  note T4 = T [THEN conjunct2, THEN conjunct2, THEN conjunct2]
  have D: "map_of (notificationTimeoutsRef (fireTimeout 1 s0)) ''a'' = None
       \<and> pendingFor (fireTimeout 1 s0) ''a'' = {}"
    using T4 [THEN conjunct1] tm by blast
  have E: "map_of (notificationTimeoutsRef (cancelNotification ''a'' s0)) ''a'' = None
       \<and> pendingFor (cancelNotification ''a'' s0) ''a'' = {}"
    by (rule T4 [THEN conjunct2])
  let ?s2 = "scheduleRevisionReminder parseSample Granted 1735689600000 ''a''
               (Str ''Optics'') (Str ''2025-01-02T00:00:00.000Z'')
               (scheduleRevisionReminder parseSample Granted 1735689600000 ''a'' (Str ''Optics'')
                  (Str ''2025-01-01T01:00:00.000Z'') (init True))"
  have "\<exists>h1 h2. h1 \<noteq> h2
         \<and> pendingFor (scheduleRevisionReminder parseSample Granted 1735689600000 ''a''
              (Str ''Optics'') (Str ''2025-01-01T01:00:00.000Z'') (init True)) ''a'' = {h1}
         \<and> pendingFor ?s2 ''a'' = {h2}
         \<and> timers ?s2 h2 = Some (Timeout (1735776000000 - 1735689600000)
                 (Remind Granted ''a'' ReminderHeading (TimeToReviewBody (Str ''Optics'')) True))
         \<and> (\<forall>later. timers (run parseSample later ?s2) h1 = None
               \<and> fireTimeout h1 (run parseSample later ?s2) = run parseSample later ?s2)"
    by (rule U [THEN conjunct2, THEN conjunct2, THEN conjunct1, THEN mp]) (use d1 d2 in simp)
  then obtain h1 h2 where ne: "h1 \<noteq> h2" and p2: "pendingFor ?s2 ''a'' = {h2}"
    and t2: "timers ?s2 h2 = Some (Timeout (1735776000000 - 1735689600000)
                 (Remind Granted ''a'' ReminderHeading (TimeToReviewBody (Str ''Optics'')) True))"
    and nf: "\<forall>later. timers (run parseSample later ?s2) h1 = None
               \<and> fireTimeout h1 (run parseSample later ?s2) = run parseSample later ?s2"
    by blast
  from nf have "timers (run parseSample [] ?s2) h1 = None"
    by blast
  then have "timers ?s2 h1 = None"
    by (simp add: run_Nil)
  with ne p2 t2 have C: "\<exists>h1 h2. h1 \<noteq> h2 \<and> pendingFor ?s2 ''a'' = {h2}
         \<and> timers ?s2 h2 = Some (Timeout 86400000
                 (Remind Granted ''a'' ReminderHeading (TimeToReviewBody (Str ''Optics'')) True))
         \<and> timers ?s2 h1 = None"
    by (intro exI [of _ h1] exI [of _ h2]) simp
  show ?thesis
    unfolding Let_def s0_def [symmetric] s1_def [symmetric]
    using c m tm A B C D E d1 d2 by blast
qed

section \<open>The permission gate\<close>

lemma startPeriodicCheck_ungranted:
  assumes "perm \<noteq> Granted"
  shows "startPeriodicCheck parse perm now items st =
           (snd (setInterval perm items 300000
              (case checkIntervalRef st of Some h \<Rightarrow> clearTimeout h st | None \<Rightarrow> st)))
           \<lparr>checkIntervalRef := Some (nextHandle st)\<rparr>"
  using assms
  by (simp add: startPeriodicCheck_unfold checkOverdueItems_ungranted clearTimeout_fields
      split: option.splits)

text \<open>
  C3 fails for \<open>startPeriodicCheck\<close>: with permission denied it still arms an interval and
  stores its handle.
\<close>

theorem startPeriodicCheck_ungated_counterexample:
  "startPeriodicCheck parseSample Denied 1735689600000 [] (init True) \<noteq> init True
   \<and> checkIntervalRef (init True) = None
   \<and> timers (init True) 1 = None
   \<and> checkIntervalRef (startPeriodicCheck parseSample Denied 1735689600000 [] (init True)) = Some 1
   \<and> timers (startPeriodicCheck parseSample Denied 1735689600000 [] (init True)) 1
       = Some (Interval 300000 Denied [])"
proof -
  have a: "checkIntervalRef (init True) = None" and b: "timers (init True) 1 = None"
    by (simp_all add: init_def)
  have c: "checkIntervalRef (startPeriodicCheck parseSample Denied 1735689600000 [] (init True))
             = Some 1"
    by (simp add: startPeriodicCheck_ungranted setInterval_fields init_def)
  have d: "timers (startPeriodicCheck parseSample Denied 1735689600000 [] (init True)) 1
             = Some (Interval 300000 Denied [])"
    by (simp add: startPeriodicCheck_ungranted setInterval_fields init_def)
  have "startPeriodicCheck parseSample Denied 1735689600000 [] (init True) \<noteq> init True"
    using a c by auto
  then show ?thesis
    using a b c d by blast
qed

text \<open>
  C3, amended: when the permission is not \<open>granted\<close>, \<open>showNotification\<close>,
  \<open>scheduleNotification\<close>, \<open>scheduleRevisionReminder\<close> and \<open>checkOverdueItems\<close> leave the
  state as it is (no notification, no timer, no change of the map or of the interval ref),
  and a tick of a sweeper started without permission changes nothing.
  \<open>startPeriodicCheck\<close> is not gated: it surfaces nothing and leaves the map alone, but it
  stores a fresh handle in the interval ref and arms a 5-minute interval under it; apart
  from that handle and the previous sweeper's, the host's timers are as before.
\<close>

theorem ungranted_is_silent:
  assumes "perm \<noteq> Granted"
  shows
    "showNotification perm ttl bdy tag st = (None, st)
     \<and> scheduleNotification perm ident ttl bdy delay onClick st = st
     \<and> scheduleRevisionReminder parse perm now ident itemTitle nextReviewTime st = st
     \<and> snd (checkOverdueItems parse perm now items st) = st
     \<and> (\<forall>h period its. timers st h = Some (Interval period perm its) \<longrightarrow>
          fireInterval parse now h st = st)
     \<and> shown (startPeriodicCheck parse perm now items st) = shown st
     \<and> notificationTimeoutsRef (startPeriodicCheck parse perm now items st)
         = notificationTimeoutsRef st
     \<and> checkIntervalRef (startPeriodicCheck parse perm now items st) = Some (nextHandle st)
     \<and> timers (startPeriodicCheck parse perm now items st) (nextHandle st)
         = Some (Interval (5 * 60 * 1000) perm items)
     \<and> (\<forall>h. h \<noteq> nextHandle st \<and> checkIntervalRef st \<noteq> Some h \<longrightarrow>
          timers (startPeriodicCheck parse perm now items st) h = timers st h)"
proof -
  have ng: "\<not> (perm = Granted \<and> hasNotification s)" for s
    using assms by simp
  have show_noop: "showNotification perm ttl bdy tag st = (None, st)"
    using ng by (rule showNotification_ungranted)
  have sched_noop: "scheduleNotification perm ident ttl bdy delay onClick st = st"
    using assms by (rule scheduleNotification_ungranted)
  have rem_noop: "scheduleRevisionReminder parse perm now ident itemTitle nextReviewTime st = st"
    using assms ng
    by (simp add: scheduleRevisionReminder_cases showNotification_ungranted
        scheduleNotification_ungranted split: option.splits)
  have check_noop: "snd (checkOverdueItems parse perm now items st) = st"
    using ng by (rule checkOverdueItems_ungranted)
  have tick_noop: "fireInterval parse now h st = st"
    if "timers st h = Some (Interval period perm its)" for h period its
    using that by (simp add: fireInterval_cases checkOverdueItems_ungranted [OF ng])
  note eq = startPeriodicCheck_ungranted [OF assms, of parse now items st]
  have s1: "shown (startPeriodicCheck parse perm now items st) = shown st"
    by (simp add: eq setInterval_fields clearTimeout_fields split: option.splits)
  have s2: "notificationTimeoutsRef (startPeriodicCheck parse perm now items st)
              = notificationTimeoutsRef st"
    by (simp add: eq setInterval_fields clearTimeout_fields split: option.splits)
  have s3: "checkIntervalRef (startPeriodicCheck parse perm now items st) = Some (nextHandle st)"
    by (simp add: eq)
  have s4: "timers (startPeriodicCheck parse perm now items st) (nextHandle st)
              = Some (Interval (5 * 60 * 1000) perm items)"
    by (simp add: eq setInterval_fields clearTimeout_fields split: option.splits)
  have s5: "timers (startPeriodicCheck parse perm now items st) h = timers st h"
    if "h \<noteq> nextHandle st \<and> checkIntervalRef st \<noteq> Some h" for h
    using that by (simp add: eq setInterval_fields clearTimeout_fields split: option.splits)
  show ?thesis
    using show_noop sched_noop rem_noop check_noop tick_noop s1 s2 s3 s4 s5 by blast
qed

theorem ungranted_is_silent_witness:
  "Denied \<noteq> Granted
   \<and> showNotification Denied OverdueHeading (NeedsReviewBody ''Optics'') ''a'' (init True)
       = (None, init True)
   \<and> scheduleNotification Denied ''a'' ReminderHeading (TimeToReviewBody (Str ''Optics''))
        5000 True (init True) = init True
   \<and> scheduleRevisionReminder parseSample Denied 1735689600000 ''a'' (Str ''Optics'')
        (Str ''2025-01-01T00:00:00.000Z'') (init True) = init True
   \<and> snd (checkOverdueItems parseSample Denied 1735689600000
        [\<lparr>item_id = ''a'', title = ''Optics'', next_review = Str ''2025-01-01T00:00:00.000Z'',
          review_count = Some 0\<rparr>] (init True)) = init True
   \<and> checkIntervalRef (startPeriodicCheck parseSample Denied 1735689600000
        [\<lparr>item_id = ''a'', title = ''Optics'', next_review = Str ''2025-01-01T00:00:00.000Z'',
          review_count = Some 0\<rparr>] (init True)) = Some 1
   \<and> timers (startPeriodicCheck parseSample Denied 1735689600000
        [\<lparr>item_id = ''a'', title = ''Optics'', next_review = Str ''2025-01-01T00:00:00.000Z'',
          review_count = Some 0\<rparr>] (init True)) 1
       = Some (Interval 300000 Denied
          [\<lparr>item_id = ''a'', title = ''Optics'', next_review = Str ''2025-01-01T00:00:00.000Z'',
            review_count = Some 0\<rparr>])
   \<and> fireInterval parseSample 1735689900000 1
        (startPeriodicCheck parseSample Denied 1735689600000
          [\<lparr>item_id = ''a'', title = ''Optics'', next_review = Str ''2025-01-01T00:00:00.000Z'',
            review_count = Some 0\<rparr>] (init True))
       = startPeriodicCheck parseSample Denied 1735689600000
          [\<lparr>item_id = ''a'', title = ''Optics'', next_review = Str ''2025-01-01T00:00:00.000Z'',
            review_count = Some 0\<rparr>] (init True)"
proof -
  define B where "B = \<lparr>item_id = ''a'', title = ''Optics'',
      next_review = Str ''2025-01-01T00:00:00.000Z'', review_count = Some 0\<rparr>"
  define s1 where "s1 = startPeriodicCheck parseSample Denied 1735689600000 [B] (init True)"
  have ng: "Denied \<noteq> Granted" by simp
  note T = ungranted_is_silent [OF ng, where st = "init True" and parse = parseSample
      and now = 1735689600000 and items = "[B]" and ident = "''a''" and tag = "''a''"
      and ttl = OverdueHeading and bdy = "NeedsReviewBody ''Optics''"]
  note U = ungranted_is_silent [OF ng, where st = s1 and parse = parseSample
      and now = 1735689900000]
  have nh: "nextHandle (init True) = 1"
    by (simp add: init_def)
  have ref: "checkIntervalRef s1 = Some 1" and tm: "timers s1 1 = Some (Interval 300000 Denied [B])"
    using T nh unfolding s1_def by simp_all
  have tick: "fireInterval parseSample 1735689900000 1 s1 = s1"
    using U [THEN conjunct2, THEN conjunct2, THEN conjunct2, THEN conjunct2, THEN conjunct1] tm
    by blast
  have a: "showNotification Denied OverdueHeading (NeedsReviewBody ''Optics'') ''a'' (init True)
             = (None, init True)"
    by (rule T [THEN conjunct1])
  have b: "scheduleNotification Denied ''a'' ReminderHeading (TimeToReviewBody (Str ''Optics''))
        5000 True (init True) = init True"
    by (rule ungranted_is_silent [OF ng, THEN conjunct2, THEN conjunct1])
  have c: "scheduleRevisionReminder parseSample Denied 1735689600000 ''a'' (Str ''Optics'')
        (Str ''2025-01-01T00:00:00.000Z'') (init True) = init True"
    by (rule ungranted_is_silent [OF ng, THEN conjunct2, THEN conjunct2, THEN conjunct1])
  have d: "snd (checkOverdueItems parseSample Denied 1735689600000 [B] (init True)) = init True"
    by (rule T [THEN conjunct2, THEN conjunct2, THEN conjunct2, THEN conjunct1])
  show ?thesis
    unfolding B_def [symmetric] s1_def [symmetric]
    using ng a b c d ref tm tick by blast
qed

section \<open>Absent and unparseable next-review values\<close>

text \<open>
  C4 fails: for a next-review string that is not a date, with permission granted,
  \<open>scheduleRevisionReminder\<close> surfaces nothing and changes nothing, and
  \<open>checkOverdueItems\<close> returns neither that item nor one whose next-review value is
  \<open>null\<close>.
\<close>

theorem malformed_not_immediate_counterexample:
  "dateTime parseSample (Str ''not a date'') = None
   \<and> hasNotification (init True)
   \<and> scheduleRevisionReminder parseSample Granted 1735689600000 ''a'' (Str ''Optics'')
        (Str ''not a date'') (init True) = init True
   \<and> shown (scheduleRevisionReminder parseSample Granted 1735689600000 ''a'' (Str ''Optics'')
        (Str ''not a date'') (init True)) = []
   \<and> fst (checkOverdueItems parseSample Granted 1735689600000
        [\<lparr>item_id = ''a'', title = ''Optics'', next_review = Str ''not a date'',
          review_count = Some 0\<rparr>,
         \<lparr>item_id = ''b'', title = ''Waves'', next_review = Null, review_count = Some 0\<rparr>]
        (init True)) = []
   \<and> shown (snd (checkOverdueItems parseSample Granted 1735689600000
        [\<lparr>item_id = ''a'', title = ''Optics'', next_review = Str ''not a date'',
          review_count = Some 0\<rparr>,
         \<lparr>item_id = ''b'', title = ''Waves'', next_review = Null, review_count = Some 0\<rparr>]
        (init True))) = []"
proof -
  have d: "dateTime parseSample (Str ''not a date'') = None"
    by (simp add: parseSample_def)
  have h: "hasNotification (init True)" and s: "shown (init True) = []"
    by (simp_all add: init_def)
  have e: "scheduleRevisionReminder parseSample Granted 1735689600000 ''a'' (Str ''Optics'')
        (Str ''not a date'') (init True) = init True"
    using d by (simp add: scheduleRevisionReminder_cases)
  have f: "filter (overdue parseSample 1735689600000)
        [\<lparr>item_id = ''a'', title = ''Optics'', next_review = Str ''not a date'',
          review_count = Some 0\<rparr>,
         \<lparr>item_id = ''b'', title = ''Waves'', next_review = Null, review_count = Some 0\<rparr>] = []"
    using d by (simp add: overdue_def)
  show ?thesis
    using d h e s f by (simp add: checkOverdueItems_result checkOverdueItems_shown)
qed

text \<open>
  C4, amended: a next-review value that is no date (an unparseable or empty string, or
  \<open>undefined\<close>) is not treated as due: \<open>scheduleRevisionReminder\<close> leaves the state
  unchanged for it, whatever the permission, and \<open>checkOverdueItems\<close> returns no item whose
  next-review value is falsy (\<open>null\<close>, \<open>undefined\<close>, the empty string) or no date. Only
  \<open>null\<close> handed to \<open>scheduleRevisionReminder\<close> is read as the epoch: with the clock at or
  after the epoch and permission granted it surfaces a notification at once and leaves the
  timer map as it was.
\<close>

theorem malformed_next_review_dropped:
  "(dateTime parse nextReviewTime = None \<longrightarrow>
      scheduleRevisionReminder parse perm now ident itemTitle nextReviewTime st = st)
   \<and> scheduleRevisionReminder parse perm now ident itemTitle Undefined st = st
   \<and> (\<not> truthy (next_review it) \<or> dateTime parse (next_review it) = None \<longrightarrow>
        it \<notin> set (fst (checkOverdueItems parse perm now items st)))
   \<and> (0 \<le> now \<and> hasNotification st \<longrightarrow>
        shown (scheduleRevisionReminder parse Granted now ident itemTitle Null st)
          = shown st @ [\<lparr>n_title = ReminderHeading, n_body = OverdueReviewBody itemTitle,
                          n_tag = ident, n_onclick = False, n_closed = False\<rparr>]
        \<and> notificationTimeoutsRef (scheduleRevisionReminder parse Granted now ident itemTitle Null st)
            = notificationTimeoutsRef st)"
proof -
  have a: "scheduleRevisionReminder parse perm now ident itemTitle nextReviewTime st = st"
    if "dateTime parse nextReviewTime = None"
    using that by (simp add: scheduleRevisionReminder_cases)
  have b: "scheduleRevisionReminder parse perm now ident itemTitle Undefined st = st"
    by (simp add: scheduleRevisionReminder_cases)
  have c: "it \<notin> set (fst (checkOverdueItems parse perm now items st))"
    if "\<not> truthy (next_review it) \<or> dateTime parse (next_review it) = None"
    using that by (auto simp add: checkOverdueItems_result overdue_def)
  have d: "shown (scheduleRevisionReminder parse Granted now ident itemTitle Null st)
          = shown st @ [\<lparr>n_title = ReminderHeading, n_body = OverdueReviewBody itemTitle,
                          n_tag = ident, n_onclick = False, n_closed = False\<rparr>]
        \<and> notificationTimeoutsRef (scheduleRevisionReminder parse Granted now ident itemTitle Null st)
            = notificationTimeoutsRef st"
    if "0 \<le> now \<and> hasNotification st"
    using that by (simp add: scheduleRevisionReminder_cases showNotification_fields)
  show ?thesis
    using a b c d by blast
qed

theorem malformed_next_review_dropped_witness:
  "dateTime parseSample (Str []) = None
   \<and> scheduleRevisionReminder parseSample Granted 1735689600000 ''a'' (Str ''Optics'') (Str [])
        (init True) = init True
   \<and> \<not> truthy (next_review \<lparr>item_id = ''b'', title = ''Waves'', next_review = Null,
          review_count = Some 0\<rparr>)
   \<and> \<lparr>item_id = ''b'', title = ''Waves'', next_review = Null, review_count = Some 0\<rparr>
        \<notin> set (fst (checkOverdueItems parseSample Granted 1735689600000
              [\<lparr>item_id = ''b'', title = ''Waves'', next_review = Null, review_count = Some 0\<rparr>]
              (init True)))
   \<and> (0::int) \<le> 1735689600000 \<and> hasNotification (init True)
   \<and> shown (scheduleRevisionReminder parseSample Granted 1735689600000 ''b'' (Str ''Waves'') Null
        (init True))
       = [\<lparr>n_title = ReminderHeading, n_body = OverdueReviewBody (Str ''Waves''),
           n_tag = ''b'', n_onclick = False, n_closed = False\<rparr>]"
proof -
  define B where "B = \<lparr>item_id = ''b'', title = ''Waves'', next_review = Null,
      review_count = Some 0\<rparr>"
  have d: "dateTime parseSample (Str []) = None"
    by (simp add: parseSample_def)
  have t: "\<not> truthy (next_review B)"
    by (simp add: B_def)
  have h: "(0::int) \<le> 1735689600000 \<and> hasNotification (init True)"
    by (simp add: init_def)
  have s: "shown (init True) = []"
    by (simp add: init_def)
  note T = malformed_next_review_dropped [where parse = parseSample and perm = Granted
      and now = 1735689600000 and st = "init True" and nextReviewTime = "Str []"
      and it = B and items = "[B]"]
  have a: "scheduleRevisionReminder parseSample Granted 1735689600000 ''a'' (Str ''Optics'')
             (Str []) (init True) = init True"
    using T [THEN conjunct1] d by blast
  have c: "B \<notin> set (fst (checkOverdueItems parseSample Granted 1735689600000 [B] (init True)))"
    using T [THEN conjunct2, THEN conjunct2, THEN conjunct1] t by blast
  have "shown (scheduleRevisionReminder parseSample Granted 1735689600000 ''b'' (Str ''Waves'')
          Null (init True))
        = shown (init True) @ [\<lparr>n_title = ReminderHeading,
            n_body = OverdueReviewBody (Str ''Waves''), n_tag = ''b'',
            n_onclick = False, n_closed = False\<rparr>]"
    using T [THEN conjunct2, THEN conjunct2, THEN conjunct2] h by blast
  then have e: "shown (scheduleRevisionReminder parseSample Granted 1735689600000 ''b''
          (Str ''Waves'') Null (init True))
        = [\<lparr>n_title = ReminderHeading, n_body = OverdueReviewBody (Str ''Waves''),
            n_tag = ''b'', n_onclick = False, n_closed = False\<rparr>]"
    by (simp add: s)
  show ?thesis
    unfolding B_def [symmetric] using d a t c h e by blast
qed

section \<open>Teardown releases everything\<close>

text \<open>
  C5: in every consistent state, after \<open>stopAllNotifications\<close> the count of scheduled
  notifications is 0; no reminder timeout is pending for any id, and each handle the map
  held is retired, so that in no later run it is pending or fires; no sweeper interval is
  pending and the interval ref is empty; and in every later run that does not call
  \<open>startPeriodicCheck\<close> no interval is pending, so no tick can run.
\<close>

theorem stopAllNotifications_releases:
  assumes "consistent st"
  shows
    "getScheduledCount (stopAllNotifications st) = 0
     \<and> (\<forall>ident. pendingFor (stopAllNotifications st) ident = {})
     \<and> (\<forall>ident h. map_of (notificationTimeoutsRef st) ident = Some h \<longrightarrow>
          (\<forall>later. timers (run parse later (stopAllNotifications st)) h = None
             \<and> fireTimeout h (run parse later (stopAllNotifications st))
                 = run parse later (stopAllNotifications st)))
     \<and> sweepers (stopAllNotifications st) = {}
     \<and> checkIntervalRef (stopAllNotifications st) = None
     \<and> (\<forall>later. (\<forall>a \<in> set later. \<not> isStart a) \<longrightarrow>
          sweepers (run parse later (stopAllNotifications st)) = {}
          \<and> (\<forall>now h. fireInterval parse now h (run parse later (stopAllNotifications st))
                = run parse later (stopAllNotifications st)))"
proof -
  let ?st' = "stopAllNotifications st"
  have f: "fresh st" and r: "registry_ok st"
    using assms by (simp_all add: consistent_def)
  have c': "consistent ?st'"
    using assms by (rule consistent_stopAllNotifications)
  have count: "getScheduledCount ?st' = 0"
    by (simp add: getScheduledCount_def stopAllNotifications_fields)
  have pend: "pendingFor ?st' ident = {}" for ident
    using assms by (rule stopAllNotifications_facts)
  have sw: "sweepers ?st' = {}"
    using assms by (rule stopAllNotifications_facts)
  have ref: "checkIntervalRef ?st' = None"
    by (simp add: stopAllNotifications_fields)
  have dead: "timers (run parse later ?st') h = None
                \<and> fireTimeout h (run parse later ?st') = run parse later ?st'"
    if m: "map_of (notificationTimeoutsRef st) ident = Some h" for ident h later
  proof -
    have "h \<in> pendingFor st ident"
      using r m by (simp add: registry_ok_lookup)
    then have "timers st h \<noteq> None"
      by (auto simp add: pendingFor_def)
    then have lt: "h < nextHandle st"
      using f by (simp add: fresh_def)
    have "(ident, h) \<in> set (notificationTimeoutsRef st)"
      using m by (rule map_of_SomeD)
    then have "h \<in> snd ` set (notificationTimeoutsRef st)"
      by force
    then have "retired ?st' h"
      using lt by (simp add: retired_def stopAllNotifications_timers stopAllNotifications_fields)
    then show ?thesis
      using retired_never_fires(1,2) by blast
  qed
  have quiet: "sweepers (run parse later ?st') = {}
                \<and> (\<forall>now h. fireInterval parse now h (run parse later ?st') = run parse later ?st')"
    if "\<forall>a \<in> set later. \<not> isStart a" for later
    using no_sweeper_without_start [OF c' ref that] by blast
  show ?thesis
    using count pend dead sw ref quiet by blast
qed

theorem stopAllNotifications_releases_witness:
  "(let s0 = startPeriodicCheck parseSample Granted 1735689600000 []
               (scheduleNotification Granted ''a'' ReminderHeading
                  (TimeToReviewBody (Str ''Optics'')) 5000 True (init True))
    in consistent s0
       \<and> getScheduledCount s0 = 1
       \<and> map_of (notificationTimeoutsRef s0) ''a'' = Some 1
       \<and> sweepers s0 \<noteq> {}
       \<and> getScheduledCount (stopAllNotifications s0) = 0
       \<and> pendingFor (stopAllNotifications s0) ''a'' = {}
       \<and> timers (stopAllNotifications s0) 1 = None
       \<and> sweepers (stopAllNotifications s0) = {}
       \<and> fireInterval parseSample 1735689900000 2
            (run parseSample [CheckOverdueItems Granted 1735689700000 [], FireTimeout 1]
               (stopAllNotifications s0))
           = run parseSample [CheckOverdueItems Granted 1735689700000 [], FireTimeout 1]
               (stopAllNotifications s0))"
proof -
  define s where "s = scheduleNotification Granted ''a'' ReminderHeading
      (TimeToReviewBody (Str ''Optics'')) 5000 True (init True)"
  define s0 where "s0 = startPeriodicCheck parseSample Granted 1735689600000 [] s"
  have cs: "consistent s"
    unfolding s_def using consistent_init by (rule consistent_scheduleNotification)
  then have fs: "fresh s" and ss: "sweeper_ok s"
    by (simp_all add: consistent_def)
  have c: "consistent s0"
    unfolding s0_def using cs by (rule consistent_startPeriodicCheck)
  have reg: "notificationTimeoutsRef s0 = [(''a'', 1)]"
    unfolding s0_def by (simp add: startPeriodicCheck_facts(3) [OF fs ss])
      (simp add: s_def scheduleNotification_fields init_def)
  have n: "getScheduledCount s0 = 1" and m: "map_of (notificationTimeoutsRef s0) ''a'' = Some 1"
    by (simp_all add: getScheduledCount_def reg)
  have swn: "sweepers s0 \<noteq> {}"
    using startPeriodicCheck_facts(4) [OF fs ss, of parseSample Granted 1735689600000 "[]"]
    unfolding s0_def by auto
  note T = stopAllNotifications_releases [OF c, where parse = parseSample]
  have a: "getScheduledCount (stopAllNotifications s0) = 0"
    by (rule T [THEN conjunct1])
  have b: "pendingFor (stopAllNotifications s0) ''a'' = {}"
    using T [THEN conjunct2, THEN conjunct1] by blast
  have "timers (run parseSample [] (stopAllNotifications s0)) 1 = None"
    using T [THEN conjunct2, THEN conjunct2, THEN conjunct1] m by blast
  then have d: "timers (stopAllNotifications s0) 1 = None"
    by (simp add: run_Nil)
  have e: "sweepers (stopAllNotifications s0) = {}"
    by (rule T [THEN conjunct2, THEN conjunct2, THEN conjunct2, THEN conjunct1])
  have ns: "\<forall>a \<in> set [CheckOverdueItems Granted 1735689700000 [], FireTimeout 1]. \<not> isStart a"
    by simp
  have g: "fireInterval parseSample 1735689900000 2
            (run parseSample [CheckOverdueItems Granted 1735689700000 [], FireTimeout 1]
               (stopAllNotifications s0))
           = run parseSample [CheckOverdueItems Granted 1735689700000 [], FireTimeout 1]
               (stopAllNotifications s0)"
    using T [THEN conjunct2, THEN conjunct2, THEN conjunct2, THEN conjunct2, THEN conjunct2] ns
    by blast
  show ?thesis
    unfolding Let_def s_def [symmetric] s0_def [symmetric]
    using c n m swn a b d e g by blast
qed

section \<open>One sweeper\<close>

lemma startPeriodicCheck_retires_old:
  assumes "fresh st" and "checkIntervalRef st = Some h0" and "timers st h0 \<noteq> None"
  shows "retired (startPeriodicCheck parse p now items st) h0"
proof -
  let ?st1 = "case checkIntervalRef st of Some h \<Rightarrow> clearTimeout h st | None \<Rightarrow> st"
  let ?st2 = "snd (checkOverdueItems parse p now items ?st1)"
  have "h0 < nextHandle st"
    using assms(1,3) by (simp add: fresh_def)
  then have "retired ?st1 h0"
    using assms(2) by (simp add: retired_def clearTimeout_fields)
  then have "retired ?st2 h0"
    by (rule retired_checkOverdueItems)
  then show ?thesis
    by (simp add: retired_def startPeriodicCheck_unfold setInterval_fields)
qed

lemma startPeriodicCheck_shown:
  "shown (startPeriodicCheck parse p now items st)
     = shown (snd (checkOverdueItems parse p now items st))"
  by (auto simp add: startPeriodicCheck_unfold setInterval_fields checkOverdueItems_shown
      clearTimeout_fields split: option.splits)

text \<open>
  C6: in every state a run reaches at most one sweeper interval is pending, the one the
  interval ref holds. In a consistent state \<open>startPeriodicCheck\<close> retires the previous
  sweeper's handle (it cannot tick again), surfaces exactly what one \<open>checkOverdueItems\<close>
  of the items surfaces, and leaves exactly one pending interval, of period 5 minutes,
  whose tick is \<open>checkOverdueItems\<close> of the same items at the clock reading of the tick.
  The returned cleanup, called on the resulting state, clears that interval: no sweeper is
  pending and the ref is empty.
\<close>

theorem startPeriodicCheck_single_sweeper:
  assumes "consistent st"
  shows
    "card (sweepers (run parse acts (init hn))) \<le> 1
     \<and> sweepers (run parse acts (init hn)) = set_option (checkIntervalRef (run parse acts (init hn)))
     \<and> (\<forall>h0. checkIntervalRef st = Some h0 \<longrightarrow>
          retired (startPeriodicCheck parse perm now items st) h0)
     \<and> shown (startPeriodicCheck parse perm now items st)
         = shown (snd (checkOverdueItems parse perm now items st))
     \<and> (\<exists>h. checkIntervalRef (startPeriodicCheck parse perm now items st) = Some h
           \<and> sweepers (startPeriodicCheck parse perm now items st) = {h}
           \<and> timers (startPeriodicCheck parse perm now items st) h
               = Some (Interval (5 * 60 * 1000) perm items)
           \<and> (\<forall>now'. fireInterval parse now' h (startPeriodicCheck parse perm now items st)
                 = snd (checkOverdueItems parse perm now' items
                          (startPeriodicCheck parse perm now items st)))
           \<and> timers (stopChecking (startPeriodicCheck parse perm now items st)) h = None)
     \<and> sweepers (stopChecking (startPeriodicCheck parse perm now items st)) = {}
     \<and> checkIntervalRef (stopChecking (startPeriodicCheck parse perm now items st)) = None"
proof -
  let ?st' = "startPeriodicCheck parse perm now items st"
  have f: "fresh st" and s: "sweeper_ok st"
    using assms by (simp_all add: consistent_def)
  have reach: "consistent (run parse acts (init hn))"
    by (rule consistent_reachable)
  have A: "card (sweepers (run parse acts (init hn))) \<le> 1"
    using reach by (rule consistent_at_most_one)
  have A': "sweepers (run parse acts (init hn))
              = set_option (checkIntervalRef (run parse acts (init hn)))"
    using reach by (simp add: consistent_def sweeper_ok_def)
  have B: "retired ?st' h0" if ref: "checkIntervalRef st = Some h0" for h0
  proof -
    have "h0 \<in> sweepers st"
      using s ref by (simp add: sweeper_ok_def)
    then have "timers st h0 \<noteq> None"
      by (auto simp add: sweepers_def)
    with f ref show ?thesis
      by (rule startPeriodicCheck_retires_old)
  qed
  have C: "shown ?st' = shown (snd (checkOverdueItems parse perm now items st))"
    by (rule startPeriodicCheck_shown)
  have c': "consistent ?st'"
    using assms by (rule consistent_startPeriodicCheck)
  then have f': "fresh ?st'" and s': "sweeper_ok ?st'"
    by (simp_all add: consistent_def)
  obtain h where ref': "checkIntervalRef ?st' = Some h" and sw': "sweepers ?st' = {h}"
    and tm': "timers ?st' h = Some (Interval 300000 perm items)"
    using startPeriodicCheck_facts(4) [OF f s, of parse perm now items] by blast
  have tick: "fireInterval parse now' h ?st' = snd (checkOverdueItems parse perm now' items ?st')"
    for now'
    using tm' by (simp add: fireInterval_cases)
  have cleared: "timers (stopChecking ?st') h = None"
    using ref' by (simp add: stopChecking_unfold clearTimeout_fields)
  have D: "\<exists>h. checkIntervalRef ?st' = Some h
           \<and> sweepers ?st' = {h}
           \<and> timers ?st' h = Some (Interval (5 * 60 * 1000) perm items)
           \<and> (\<forall>now'. fireInterval parse now' h ?st'
                 = snd (checkOverdueItems parse perm now' items ?st'))
           \<and> timers (stopChecking ?st') h = None"
    using ref' sw' tm' tick cleared by (intro exI [of _ h]) simp
  have E: "sweepers (stopChecking ?st') = {}" and F: "checkIntervalRef (stopChecking ?st') = None"
    using f' s' by (rule stopChecking_facts)+
  show ?thesis
    using A A' B C D E F by blast
qed

theorem startPeriodicCheck_single_sweeper_witness:
  "(let B = \<lparr>item_id = ''b'', title = ''Waves'', next_review = Str ''2025-01-01T00:00:00.000Z'',
              review_count = Some 0\<rparr>;
        s0 = startPeriodicCheck parseSample Granted 1735689600000 [] (init True);
        s1 = startPeriodicCheck parseSample Granted 1735689600000 [B] s0
    in consistent s0
       \<and> checkIntervalRef s0 = Some 1
       \<and> retired s1 1
       \<and> shown s1 = [\<lparr>n_title = OverdueHeading, n_body = NeedsReviewBody ''Waves'',
                        n_tag = ''b'', n_onclick = False, n_closed = False\<rparr>]
       \<and> (\<exists>h. checkIntervalRef s1 = Some h \<and> sweepers s1 = {h}
             \<and> timers s1 h = Some (Interval 300000 Granted [B])
             \<and> timers (stopChecking s1) h = None)
       \<and> sweepers (stopChecking s1) = {}
       \<and> card (sweepers (run parseSample
             [StartPeriodicCheck Granted 1735689600000 [],
              StartPeriodicCheck Granted 1735689600000 [B]] (init True))) \<le> 1)"
proof -
  define B where "B = \<lparr>item_id = ''b'', title = ''Waves'',
      next_review = Str ''2025-01-01T00:00:00.000Z'', review_count = Some 0\<rparr>"
  define s0 where "s0 = startPeriodicCheck parseSample Granted 1735689600000 [] (init True)"
  define s1 where "s1 = startPeriodicCheck parseSample Granted 1735689600000 [B] s0"
  have c: "consistent s0"
    unfolding s0_def using consistent_init by (rule consistent_startPeriodicCheck)
  have ref: "checkIntervalRef s0 = Some 1"
    by (simp add: s0_def startPeriodicCheck_unfold checkOverdueItems_def init_def)
  have sh0: "shown s0 = []" and hn: "hasNotification s0"
    by (simp_all add: s0_def startPeriodicCheck_unfold checkOverdueItems_def init_def
        setInterval_fields)
  have od: "filter (overdue parseSample 1735689600000) [B] = [B]"
    by (simp add: overdue_def B_def parseSample_def)
  note T = startPeriodicCheck_single_sweeper [OF c, where parse = parseSample and perm = Granted
      and now = 1735689600000 and items = "[B]" and hn = True
      and acts = "[StartPeriodicCheck Granted 1735689600000 [],
                   StartPeriodicCheck Granted 1735689600000 [B]]"]
  have card: "card (sweepers (run parseSample
             [StartPeriodicCheck Granted 1735689600000 [],
              StartPeriodicCheck Granted 1735689600000 [B]] (init True))) \<le> 1"
    by (rule T [THEN conjunct1])
  note T3 = T [THEN conjunct2, THEN conjunct2]
  have ret: "retired s1 1"
    unfolding s1_def using T3 [THEN conjunct1] ref by blast
  have "shown s1 = shown (snd (checkOverdueItems parseSample Granted 1735689600000 [B] s0))"
    unfolding s1_def by (rule T3 [THEN conjunct2, THEN conjunct1])
  then have sh: "shown s1 = [\<lparr>n_title = OverdueHeading, n_body = NeedsReviewBody ''Waves'',
                        n_tag = ''b'', n_onclick = False, n_closed = False\<rparr>]"
    using sh0 hn od by (simp add: checkOverdueItems_shown) (simp add: B_def)
  have ex: "\<exists>h. checkIntervalRef s1 = Some h \<and> sweepers s1 = {h}
             \<and> timers s1 h = Some (Interval 300000 Granted [B])
             \<and> timers (stopChecking s1) h = None"
    unfolding s1_def
    using T3 [THEN conjunct2, THEN conjunct2, THEN conjunct1] by auto
  have stop: "sweepers (stopChecking s1) = {}"
    unfolding s1_def
    by (rule T3 [THEN conjunct2, THEN conjunct2, THEN conjunct2, THEN conjunct1])
  show ?thesis
    unfolding Let_def B_def [symmetric] s0_def [symmetric] s1_def [symmetric]
    using c ref ret sh ex stop card by blast
qed

section \<open>The overdue check\<close>

lemma overdue_iff:
  "overdue parse now it \<longleftrightarrow>
     truthy (next_review it) \<and> (\<exists>t. dateTime parse (next_review it) = Some t \<and> t \<le> now)"
  by (cases "dateTime parse (next_review it)") (simp_all add: overdue_def)

text \<open>
  C9: with permission granted and the notification capability present,
  \<open>checkOverdueItems\<close> returns, in order, exactly the items whose next-review value is
  present and is a time at or before the clock reading; it surfaces one notification per
  returned item, in the same order, each tagged with the item's id, and leaves the timer
  map alone. An item whose next-review string parses to \<open>now - 10 minutes\<close> is returned
  alone from the one-item list, with one notification tagged with its id.
\<close>

theorem checkOverdueItems_emits_per_item:
  assumes "hasNotification st"
  shows
    "fst (checkOverdueItems parse Granted now items st)
       = filter (\<lambda>it. truthy (next_review it)
                   \<and> (\<exists>t. dateTime parse (next_review it) = Some t \<and> t \<le> now)) items
     \<and> (\<forall>it s t. it \<in> set items \<and> next_review it = Str s \<and> s \<noteq> [] \<and> parse s = Some t \<longrightarrow>
          (it \<in> set (fst (checkOverdueItems parse Granted now items st)) \<longleftrightarrow> t \<le> now))
     \<and> shown (snd (checkOverdueItems parse Granted now items st))
         = shown st @ map (\<lambda>it. \<lparr>n_title = OverdueHeading, n_body = NeedsReviewBody (title it),
                                   n_tag = item_id it, n_onclick = False, n_closed = False\<rparr>)
                        (fst (checkOverdueItems parse Granted now items st))
     \<and> map n_tag (drop (length (shown st)) (shown (snd (checkOverdueItems parse Granted now items st))))
         = map item_id (fst (checkOverdueItems parse Granted now items st))
     \<and> notificationTimeoutsRef (snd (checkOverdueItems parse Granted now items st))
         = notificationTimeoutsRef st
     \<and> (\<forall>s. next_review B = Str s \<and> s \<noteq> [] \<and> parse s = Some (now - 10 * 60 * 1000) \<longrightarrow>
          fst (checkOverdueItems parse Granted now [B] st) = [B]
          \<and> shown (snd (checkOverdueItems parse Granted now [B] st))
              = shown st @ [\<lparr>n_title = OverdueHeading, n_body = NeedsReviewBody (title B),
                              n_tag = item_id B, n_onclick = False, n_closed = False\<rparr>])"
proof -
  let ?res = "fst (checkOverdueItems parse Granted now items st)"
  let ?st' = "snd (checkOverdueItems parse Granted now items st)"
  have res: "?res = filter (overdue parse now) items"
    by (rule checkOverdueItems_result)
  have A: "?res = filter (\<lambda>it. truthy (next_review it)
                   \<and> (\<exists>t. dateTime parse (next_review it) = Some t \<and> t \<le> now)) items"
    unfolding res by (rule filter_cong) (simp_all add: overdue_iff)
  have B: "it \<in> set ?res \<longleftrightarrow> t \<le> now"
    if "it \<in> set items \<and> next_review it = Str s \<and> s \<noteq> [] \<and> parse s = Some t" for it s t
    using that by (simp add: res overdue_def)
  have C: "shown ?st' = shown st @ map (\<lambda>it. \<lparr>n_title = OverdueHeading,
              n_body = NeedsReviewBody (title it), n_tag = item_id it,
              n_onclick = False, n_closed = False\<rparr>) ?res"
    using assms by (simp add: checkOverdueItems_shown res)
  have D: "map n_tag (drop (length (shown st)) (shown ?st')) = map item_id ?res"
    unfolding C by (simp add: comp_def)
  have E: "notificationTimeoutsRef ?st' = notificationTimeoutsRef st"
    by (simp add: checkOverdueItems_fields)
  have F: "fst (checkOverdueItems parse Granted now [B] st) = [B]
          \<and> shown (snd (checkOverdueItems parse Granted now [B] st))
              = shown st @ [\<lparr>n_title = OverdueHeading, n_body = NeedsReviewBody (title B),
                              n_tag = item_id B, n_onclick = False, n_closed = False\<rparr>]"
    if "next_review B = Str s \<and> s \<noteq> [] \<and> parse s = Some (now - 10 * 60 * 1000)" for s
    using that assms
    by (simp add: checkOverdueItems_result checkOverdueItems_shown overdue_def)
  show ?thesis
    using A B C D E F by blast
qed

theorem checkOverdueItems_emits_per_item_witness:
  "(let B = \<lparr>item_id = ''b'', title = ''Waves'', next_review = Str ''2025-01-01T00:00:00.000Z'',
              review_count = Some 0\<rparr>;
        C = \<lparr>item_id = ''c'', title = ''Optics'', next_review = Str ''2025-01-01T01:00:00.000Z'',
              review_count = Some 2\<rparr>
    in hasNotification (init True)
       \<and> next_review B = Str ''2025-01-01T00:00:00.000Z''
       \<and> parseSample ''2025-01-01T00:00:00.000Z'' = Some (1735690200000 - 10 * 60 * 1000)
       \<and> fst (checkOverdueItems parseSample Granted 1735690200000 [B] (init True)) = [B]
       \<and> shown (snd (checkOverdueItems parseSample Granted 1735690200000 [B] (init True)))
           = [\<lparr>n_title = OverdueHeading, n_body = NeedsReviewBody ''Waves'', n_tag = ''b'',
               n_onclick = False, n_closed = False\<rparr>]
       \<and> fst (checkOverdueItems parseSample Granted 1735690200000 [B, C] (init True)) = [B]
       \<and> map n_tag (shown (snd (checkOverdueItems parseSample Granted 1735690200000 [B, C]
             (init True)))) = [''b''])"
proof -
  define B where "B = \<lparr>item_id = ''b'', title = ''Waves'',
      next_review = Str ''2025-01-01T00:00:00.000Z'', review_count = Some 0\<rparr>"
  define C where "C = \<lparr>item_id = ''c'', title = ''Optics'',
      next_review = Str ''2025-01-01T01:00:00.000Z'', review_count = Some 2\<rparr>"
  have h: "hasNotification (init True)" and s: "shown (init True) = []"
    by (simp_all add: init_def)
  have nb: "next_review B = Str ''2025-01-01T00:00:00.000Z''"
    and tb: "title B = ''Waves''" and ib: "item_id B = ''b''"
    by (simp_all add: B_def)
  have nc: "next_review C = Str ''2025-01-01T01:00:00.000Z''"
    by (simp add: C_def)
  have pb: "parseSample ''2025-01-01T00:00:00.000Z'' = Some (1735690200000 - 10 * 60 * 1000)"
    and pc: "parseSample ''2025-01-01T01:00:00.000Z'' = Some 1735693200000"
    by (simp_all add: parseSample_def)
  note T = checkOverdueItems_emits_per_item [OF h, where parse = parseSample
      and now = 1735690200000 and items = "[B, C]" and B = B]
  have one: "fst (checkOverdueItems parseSample Granted 1735690200000 [B] (init True)) = [B]
          \<and> shown (snd (checkOverdueItems parseSample Granted 1735690200000 [B] (init True)))
              = shown (init True) @ [\<lparr>n_title = OverdueHeading, n_body = NeedsReviewBody (title B),
                              n_tag = item_id B, n_onclick = False, n_closed = False\<rparr>]"
    using T [THEN conjunct2, THEN conjunct2, THEN conjunct2, THEN conjunct2, THEN conjunct2]
      nb pb by blast
  then have F1: "fst (checkOverdueItems parseSample Granted 1735690200000 [B] (init True)) = [B]"
    and F2: "shown (snd (checkOverdueItems parseSample Granted 1735690200000 [B] (init True)))
           = [\<lparr>n_title = OverdueHeading, n_body = NeedsReviewBody ''Waves'', n_tag = ''b'',
               n_onclick = False, n_closed = False\<rparr>]"
    by (simp_all add: s tb ib)
  have "fst (checkOverdueItems parseSample Granted 1735690200000 [B, C] (init True))
       = filter (\<lambda>it. truthy (next_review it)
                   \<and> (\<exists>t. dateTime parseSample (next_review it) = Some t \<and> t \<le> 1735690200000))
           [B, C]"
    by (rule T [THEN conjunct1])
  then have G1: "fst (checkOverdueItems parseSample Granted 1735690200000 [B, C] (init True)) = [B]"
    using nb nc pb pc by simp
  have "map n_tag (drop (length (shown (init True)))
            (shown (snd (checkOverdueItems parseSample Granted 1735690200000 [B, C] (init True)))))
         = map item_id (fst (checkOverdueItems parseSample Granted 1735690200000 [B, C] (init True)))"
    by (rule T [THEN conjunct2, THEN conjunct2, THEN conjunct2, THEN conjunct1])
  then have G2: "map n_tag (shown (snd (checkOverdueItems parseSample Granted 1735690200000
                    [B, C] (init True)))) = [''b'']"
    by (simp add: s G1 ib)
  show ?thesis
    unfolding Let_def B_def [symmetric] C_def [symmetric]
    using h nb pb F1 F2 G1 G2 by blast
qed

text \<open>
  C10: the list \<open>checkOverdueItems\<close> returns does not depend on the permission or on the
  state it runs in: two runs on the same items at the same clock reading return the same
  list, which is the filter of the items by the overdue test.
\<close>

theorem checkOverdueItems_result_independent:
  "fst (checkOverdueItems parse perm1 now items st1)
     = fst (checkOverdueItems parse perm2 now items st2)
   \<and> fst (checkOverdueItems parse perm1 now items st1) = filter (overdue parse now) items"
  by (simp add: checkOverdueItems_result)

theorem checkOverdueItems_result_independent_witness:
  "fst (checkOverdueItems parseSample Granted 1735690200000
      [\<lparr>item_id = ''b'', title = ''Waves'', next_review = Str ''2025-01-01T00:00:00.000Z'',
        review_count = Some 0\<rparr>] (init True))
     = fst (checkOverdueItems parseSample Denied 1735690200000
      [\<lparr>item_id = ''b'', title = ''Waves'', next_review = Str ''2025-01-01T00:00:00.000Z'',
        review_count = Some 0\<rparr>] (init False))
   \<and> shown (snd (checkOverdueItems parseSample Granted 1735690200000
      [\<lparr>item_id = ''b'', title = ''Waves'', next_review = Str ''2025-01-01T00:00:00.000Z'',
        review_count = Some 0\<rparr>] (init True)))
     \<noteq> shown (snd (checkOverdueItems parseSample Denied 1735690200000
      [\<lparr>item_id = ''b'', title = ''Waves'', next_review = Str ''2025-01-01T00:00:00.000Z'',
        review_count = Some 0\<rparr>] (init False)))"
proof -
  define B where "B = \<lparr>item_id = ''b'', title = ''Waves'',
      next_review = Str ''2025-01-01T00:00:00.000Z'', review_count = Some 0\<rparr>"
  have od: "overdue parseSample 1735690200000 B"
    by (simp add: overdue_def B_def parseSample_def)
  have a: "fst (checkOverdueItems parseSample Granted 1735690200000 [B] (init True))
         = fst (checkOverdueItems parseSample Denied 1735690200000 [B] (init False))"
    by (rule checkOverdueItems_result_independent [THEN conjunct1])
  have b: "shown (snd (checkOverdueItems parseSample Granted 1735690200000 [B] (init True)))
         \<noteq> shown (snd (checkOverdueItems parseSample Denied 1735690200000 [B] (init False)))"
    by (simp add: checkOverdueItems_shown od) (simp add: init_def)
  show ?thesis
    unfolding B_def [symmetric] using a b by blast
qed

section \<open>Reviewing an item\<close>

lemma handleReview_is_markAsReviewed:
  "handleReview parse toISOString rpc perm perm' now now' now'' it st
     = snd (markAsReviewed parse toISOString rpc perm now now' (item_id it) st)"
  by (simp add: handleReview_def scheduleRevisionReminder_cases Let_def
      split: prod.splits sum.splits)

text \<open>
  C8, as the code has it: \<open>handleReview\<close> looks up one hour for a review count of 0, but
  its own call of \<open>scheduleRevisionReminder\<close> passes no next-review time and changes
  nothing. The reminder that is scheduled is the one of \<open>markAsReviewed\<close>, for
  \<open>now + 24 hours\<close>: when the remote call returns the row with that date in less than 23
  hours, the only pending timeout of the item has delay \<open>now + 24h - now'\<close>, which is more
  than one hour.
\<close>

theorem handleReview_schedules_one_day:
  assumes "consistent st"
    and "review_count it = Some 0"
    and "rpc (item_id it) (toISOString (now + 24 * 60 * 60 * 1000)) = Inr data"
    and "next_review data = Str (toISOString (now + 24 * 60 * 60 * 1000))"
    and "parse (toISOString (now + 24 * 60 * 60 * 1000)) = Some (now + 24 * 60 * 60 * 1000)"
    and "now \<le> now'" and "now' - now < 23 * 60 * 60 * 1000"
  shows
    "nextInterval (review_count it) = Some (60 * 60 * 1000)
     \<and> scheduleRevisionReminder parse perm' now'' (title it) (Num (60 * 60 * 1000)) Undefined st' = st'
     \<and> (\<exists>h. pendingFor (handleReview parse toISOString rpc Granted perm' now now' now'' it st)
               (item_id data) = {h}
           \<and> timers (handleReview parse toISOString rpc Granted perm' now now' now'' it st) h
               = Some (Timeout (now + 24 * 60 * 60 * 1000 - now')
                   (Remind Granted (item_id data) ReminderHeading
                      (TimeToReviewBody (Str (title data))) True)))
     \<and> 60 * 60 * 1000 < now + 24 * 60 * 60 * 1000 - now'"
proof -
  let ?st' = "handleReview parse toISOString rpc Granted perm' now now' now'' it st"
  have A: "nextInterval (review_count it) = Some (60 * 60 * 1000)"
    using assms(2) by (simp add: nextInterval_def intervals_def)
  have B: "scheduleRevisionReminder parse perm' now'' (title it) (Num (60 * 60 * 1000))
             Undefined st' = st'"
    by (simp add: scheduleRevisionReminder_cases)
  have D: "60 * 60 * 1000 < now + 24 * 60 * 60 * 1000 - now'"
    using assms(6,7) by simp
  have d: "dateTime parse (next_review data) = Some (now + 86400000)"
    using assms(4,5) by simp
  have "?st' = scheduleRevisionReminder parse Granted now' (item_id data) (Str (title data))
                 (next_review data) st"
    using assms(3) by (simp add: handleReview_is_markAsReviewed markAsReviewed_def)
  also have "\<dots> = scheduleNotification Granted (item_id data) ReminderHeading
                 (TimeToReviewBody (Str (title data))) (now + 86400000 - now') True st"
    using d assms(6,7) by (simp add: scheduleRevisionReminder_cases)
  finally have eq: "?st' = scheduleNotification Granted (item_id data) ReminderHeading
                 (TimeToReviewBody (Str (title data))) (now + 86400000 - now') True st" .
  have C: "\<exists>h. pendingFor ?st' (item_id data) = {h}
           \<and> timers ?st' h
               = Some (Timeout (now + 24 * 60 * 60 * 1000 - now')
                   (Remind Granted (item_id data) ReminderHeading
                      (TimeToReviewBody (Str (title data))) True))"
    unfolding eq
    using scheduleNotification_replaces(1,3) [OF assms(1), of "item_id data" ReminderHeading
        "TimeToReviewBody (Str (title data))" "now + 86400000 - now'" True]
    by (intro exI [of _ "nextHandle st"]) simp
  show ?thesis
    using A B C D by blast
qed

theorem handleReview_schedules_one_day_witness:
  "(let A = \<lparr>item_id = ''a'', title = ''Optics'', next_review = Str ''2025-01-01T00:00:00.000Z'',
              review_count = Some 0\<rparr>;
        toISO = (\<lambda>t. if t = 1735776000000 then ''2025-01-02T00:00:00.000Z'' else []);
        rpc = (\<lambda>ident date. Inr \<lparr>item_id = ident, title = ''Optics'', next_review = Str date,
                                  review_count = Some 1\<rparr>);
        s = handleReview parseSample toISO rpc Granted Granted
              1735689600000 1735689600000 1735689600000 A (init True)
    in consistent (init True)
       \<and> review_count A = Some 0
       \<and> toISO (1735689600000 + 24 * 60 * 60 * 1000) = ''2025-01-02T00:00:00.000Z''
       \<and> parseSample ''2025-01-02T00:00:00.000Z'' = Some (1735689600000 + 24 * 60 * 60 * 1000)
       \<and> nextInterval (review_count A) = Some 3600000
       \<and> (\<exists>h. pendingFor s ''a'' = {h}
             \<and> timers s h = Some (Timeout 86400000
                   (Remind Granted ''a'' ReminderHeading (TimeToReviewBody (Str ''Optics'')) True))))"
proof -
  define A where "A = \<lparr>item_id = ''a'', title = ''Optics'',
      next_review = Str ''2025-01-01T00:00:00.000Z'', review_count = Some 0\<rparr>"
  define toISO :: "int \<Rightarrow> string"
    where "toISO = (\<lambda>t. if t = 1735776000000 then ''2025-01-02T00:00:00.000Z'' else [])"
  define rpc :: "string \<Rightarrow> string \<Rightarrow> error + item"
    where "rpc = (\<lambda>ident date. Inr \<lparr>item_id = ident, title = ''Optics'',
      next_review = Str date, review_count = Some 1\<rparr>)"
  define data where "data = \<lparr>item_id = ''a'', title = ''Optics'',
      next_review = Str ''2025-01-02T00:00:00.000Z'', review_count = Some 1\<rparr>"
  define s where "s = handleReview parseSample toISO rpc Granted Granted
      1735689600000 1735689600000 1735689600000 A (init True)"
  have c: "consistent (init True)"
    by (rule consistent_init)
  have rc: "review_count A = Some 0"
    by (simp add: A_def)
  have iso: "toISO (1735689600000 + 24 * 60 * 60 * 1000) = ''2025-01-02T00:00:00.000Z''"
    by (simp add: toISO_def)
  have r: "rpc (item_id A) (toISO (1735689600000 + 24 * 60 * 60 * 1000)) = Inr data"
    by (simp add: rpc_def A_def toISO_def data_def)
  have nr: "next_review data = Str (toISO (1735689600000 + 24 * 60 * 60 * 1000))"
    by (simp add: data_def toISO_def)
  have ps: "parseSample ''2025-01-02T00:00:00.000Z'' = Some (1735689600000 + 24 * 60 * 60 * 1000)"
    by (simp add: parseSample_def)
  have p: "parseSample (toISO (1735689600000 + 24 * 60 * 60 * 1000))
             = Some (1735689600000 + 24 * 60 * 60 * 1000)"
    using ps by (simp add: toISO_def)
  have clock: "(1735689600000::int) \<le> 1735689600000"
    "(1735689600000::int) - 1735689600000 < 23 * 60 * 60 * 1000"
    by simp_all
  note T = handleReview_schedules_one_day [where rpc = rpc and toISOString = toISO
      and parse = parseSample and now = 1735689600000 and now' = 1735689600000
      and now'' = 1735689600000 and it = A and data = data and st = "init True"
      and perm' = Granted, OF c rc r nr p clock]
  have ni: "nextInterval (review_count A) = Some 3600000"
    using T [THEN conjunct1] by simp
  have ex: "\<exists>h. pendingFor s ''a'' = {h}
             \<and> timers s h = Some (Timeout 86400000
                   (Remind Granted ''a'' ReminderHeading (TimeToReviewBody (Str ''Optics'')) True))"
    using T [THEN conjunct2, THEN conjunct2, THEN conjunct1]
    by (simp add: s_def data_def)
  show ?thesis
    unfolding Let_def A_def [symmetric] toISO_def [symmetric] rpc_def [symmetric]
      s_def [symmetric]
    using c rc iso ps ni ex by blast
qed

end
